theory Spec2Isabelle
  imports Main "HOL-Library.Char_ord" "HOL-Library.List_Lexorder"
begin

section \<open>Values shared by both modules\<close>

text \<open>
  The exceptions the two modules raise themselves: \<open>toolkit.ValidationError\<close> with its
  message, and the built-in errors of a failed dict subscript (\<open>KeyError\<close>), of a subscript
  on a value that is no dict (\<open>TypeError\<close>) and of \<open>list.remove\<close> on an absent element
  (\<open>ValueError\<close>). \<open>BackendFailure\<close> stands for any exception coming out of the search
  backend's client, which the actions let through untouched.
\<close>

datatype error =
    ValidationError string
  | KeyError
  | TypeError
  | ValueError
  | BackendFailure string

text \<open>
  JSON-like Python values: the raw Elasticsearch mapping and the record data are nested
  dicts. A dict is an association list read with \<open>map_of\<close>; its keys are the distinct
  first components.
\<close>

datatype json =
    JNull
  | JBool bool
  | JInt int
  | JStr string
  | JList "json list"
  | JDict "(string \<times> json) list"

text \<open>\<open>d[k]\<close>: KeyError on a missing key, TypeError when \<open>d\<close> is not a dict.\<close>

fun subscript :: "json \<Rightarrow> string \<Rightarrow> error + json" where
  "subscript (JDict kvs) k = (case map_of kvs k of None \<Rightarrow> Inl KeyError | Some v \<Rightarrow> Inr v)"
| "subscript _ k = Inl TypeError"

text \<open>
  \<open>sorted(d)\<close> on a dict: its keys in ascending code point order. Elasticsearch
  gives the \<open>properties\<close> of a mapping as a JSON object; for any other value
  (Python would iterate over a string or a list, and fail on the rest) the model stops
  with TypeError.
\<close>

fun sorted_keys :: "json \<Rightarrow> error + string list" where
  "sorted_keys (JDict kvs) = Inr (sort (remdups (map fst kvs)))"
| "sorted_keys _ = Inl TypeError"

section \<open>lib/utils.py\<close>

subsection \<open>The search backend as get_fields sees it\<close>

text \<open>
  One sub-search of the batched existence query: \<open>Search().extra(size=0)
  .filter('exists', field=...).filter('term', **{'meta.versions': ...})\<close>.
\<close>

record exists_search =
  es_size :: int
  exists_field :: string
  meta_versions :: int

text \<open>
  \<open>CONFIG\<close>, \<open>DOC_TYPE\<close> and \<open>SEARCHER\<close> are module globals set up from outside;
  they are the parameters of the model (the configuration is the part every module reads). \<open>get_rounded_versions\<close> and \<open>get_mapping\<close> answer
  with a dict keyed by index name; \<open>hits_total\<close> is the \<open>hits.total\<close> of the response
  to one sub-search on an index (a multi-search answers every sub-search, in order).
\<close>

record config =
  elasticsearch_index_prefix :: string

record searcher = config +
  DOC_TYPE :: string
  get_rounded_versions :: "string list \<Rightarrow> int option \<Rightarrow> (string \<rightharpoonup> int option)"
  get_mapping :: "string \<Rightarrow> (string \<rightharpoonup> json)"
  hits_total :: "string \<Rightarrow> exists_search \<Rightarrow> int"

text \<open>The calls get_fields makes on the backend, in the order it makes them.\<close>

datatype backend_call =
    GetRoundedVersions "string list" "int option"
  | GetMapping string
  | MultiSearchExecute string "exists_search list"

text \<open>
  \<open>prefix_resource\<close> and \<open>prefix_field\<close> of lib/utils.py. The actions import
  \<open>prefix_resource\<close> from lib.datastore_utils, which is not among the sources; the one
  of lib/utils.py stands for it.
\<close>

definition prefix_resource :: "'a config_scheme \<Rightarrow> string \<Rightarrow> string" where
  "prefix_resource cfg resource_id = elasticsearch_index_prefix cfg @ resource_id"

definition prefix_field :: "string \<Rightarrow> string" where
  "prefix_field field = ''data.'' @ field"

subsection \<open>get_fields and its cache\<close>

record field_descriptor =
  field_id :: string
  field_type :: string

type_synonym field_cache = "(string \<times> int option) \<rightharpoonup> (json \<times> field_descriptor list)"

definition id_field :: field_descriptor where
  "id_field = \<lparr>field_id = ''_id'', field_type = ''integer''\<rparr>"

definition string_field :: "string \<Rightarrow> field_descriptor" where
  "string_field name = \<lparr>field_id = name, field_type = ''string''\<rparr>"

definition exists_at :: "string \<Rightarrow> int \<Rightarrow> exists_search" where
  "exists_at field_name rounded_version =
     \<lparr>es_size = 0, exists_field = prefix_field field_name, meta_versions = rounded_version\<rparr>"

text \<open>
  \<open>mapping['mappings'][DOC_TYPE]['properties']['data']['properties']\<close>, sorted.
\<close>

definition data_field_names :: "searcher \<Rightarrow> json \<Rightarrow> error + string list" where
  "data_field_names s mapping =
     (case subscript mapping ''mappings'' of Inl e \<Rightarrow> Inl e | Inr m1 \<Rightarrow>
     (case subscript m1 (DOC_TYPE s) of Inl e \<Rightarrow> Inl e | Inr m2 \<Rightarrow>
     (case subscript m2 ''properties'' of Inl e \<Rightarrow> Inl e | Inr m3 \<Rightarrow>
     (case subscript m3 ''data'' of Inl e \<Rightarrow> Inl e | Inr m4 \<Rightarrow>
     (case subscript m4 ''properties'' of Inl e \<Rightarrow> Inl e | Inr m5 \<Rightarrow>
        sorted_keys m5)))))"

text \<open>
  The loop over the responses: the i-th response belongs to the i-th field name, and a
  field is appended when its response has hits.
\<close>

fun existing_fields :: "searcher \<Rightarrow> string \<Rightarrow> int \<Rightarrow> string list \<Rightarrow> field_descriptor list" where
  "existing_fields s index rounded_version [] = []"
| "existing_fields s index rounded_version (name # names) =
     (if hits_total s index (exists_at name rounded_version) > 0
      then string_field name # existing_fields s index rounded_version names
      else existing_fields s index rounded_version names)"

text \<open>
  get_fields: the result (or the exception), the cache afterwards and the backend calls
  made. The cache is the module global \<open>field_cache\<close>, passed in and returned.
\<close>

definition get_fields ::
  "searcher \<Rightarrow> field_cache \<Rightarrow> string \<Rightarrow> int option \<Rightarrow>
   (error + json \<times> field_descriptor list) \<times> field_cache \<times> backend_call list" where
  "get_fields s field_cache resource_id version =
     (let index = prefix_resource s resource_id;
          calls1 = [GetRoundedVersions [index] version]
      in case get_rounded_versions s [index] version index of
           None \<Rightarrow> (Inl KeyError, field_cache, calls1)
         | Some rounded_version \<Rightarrow>
      (let cache_key = (resource_id, rounded_version)
       in case field_cache cache_key of
            Some cached \<Rightarrow> (Inr cached, field_cache, calls1)
          | None \<Rightarrow>
       (let fields = [id_field];
            calls2 = calls1 @ [GetMapping index]
        in case get_mapping s index index of
             None \<Rightarrow> (Inl KeyError, field_cache, calls2)
           | Some mapping \<Rightarrow>
        (case rounded_version of
           None \<Rightarrow> (Inr (mapping, fields), field_cache, calls2)
         | Some rv \<Rightarrow>
        (case data_field_names s mapping of
           Inl e \<Rightarrow> (Inl e, field_cache, calls2)
         | Inr sorted_names \<Rightarrow>
        (if ''_id'' \<notin> set sorted_names then (Inl ValueError, field_cache, calls2)
         else
           (let field_names = remove1 ''_id'' sorted_names;
                search = map (\<lambda>field. exists_at field rv) field_names;
                calls3 = calls2 @ [MultiSearchExecute index search];
                fields = fields @ existing_fields s index rv field_names
            in (Inr (mapping, fields),
                field_cache(cache_key \<mapsto> (mapping, fields)),
                calls3))))))))"

text \<open>The rounded version get_fields works with: \<open>None\<close> is the KeyError of the subscript.\<close>

definition resolved_version :: "searcher \<Rightarrow> string \<Rightarrow> int option \<Rightarrow> int option option" where
  "resolved_version s resource_id version =
     get_rounded_versions s [prefix_resource s resource_id] version (prefix_resource s resource_id)"

text \<open>
  The states of \<open>field_cache\<close>: empty when the module is loaded, and written by
  get_fields only (with any backend state and any arguments at each call).
\<close>

inductive reachable_cache :: "field_cache \<Rightarrow> bool" where
  start: "reachable_cache Map.empty"
| call: "reachable_cache c \<Longrightarrow> get_fields s c resource_id version = (r, c', calls)
         \<Longrightarrow> reachable_cache c'"

text \<open>The shape of every field list get_fields builds, and of every cache entry.\<close>

definition listed_fields :: "field_descriptor list \<Rightarrow> bool" where
  "listed_fields fs \<longleftrightarrow>
     (\<exists>names. fs = id_field # map string_field names \<and> distinct names \<and> ''_id'' \<notin> set names)"

definition cache_ok :: "field_cache \<Rightarrow> bool" where
  "cache_ok c \<longleftrightarrow>
     (\<forall>rid rvo m fs. c (rid, rvo) = Some (m, fs) \<longrightarrow> rvo \<noteq> None \<and> listed_fields fs)"

section \<open>logic/actions/multisearch.py\<close>

subsection \<open>Searches, results and responses\<close>

text \<open>
  One entry of \<open>Search.sort\<close>: \<open>{field: {'order': ..., 'unmapped_type': ...}}\<close>, or
  \<open>{field: order}\<close> when there is no \<open>unmapped_type\<close>.
\<close>

record sort_key =
  sort_field :: string
  sort_order :: string
  unmapped_type :: "string option"

text \<open>A sort value of a hit (\<open>hit.meta.sort\<close> is a list of them), also sent back as cursor.\<close>

datatype sort_value = SNull | SNum int | SStr string

text \<open>
  The state of an elasticsearch-dsl \<open>Search\<close> object as far as the actions touch it: the
  translated query (opaque), the filters added, the sort, the \<open>extra\<close> entries
  \<open>search_after\<close> and \<open>size\<close>, the indexes and the aggregations
  (name, type, field).
\<close>

record ('e, 'f) search =
  search_query :: 'e
  search_filters :: "'f list"
  search_sort :: "sort_key list"
  search_after :: "sort_value list option"
  search_size :: "int option"
  search_index :: "string list"
  search_aggs :: "(string \<times> string \<times> string) list"

record hit =
  hit_data :: json
  hit_index :: string
  hit_sort :: "sort_value list"

text \<open>
  The one response of the multi-search: the hits, \<open>hits.total\<close>, and the buckets
  (key, doc_count) of the \<open>indexes\<close> aggregation.
\<close>

record search_result =
  result_hits :: "hit list"
  result_total :: int
  result_index_buckets :: "(string \<times> int) list"

record found_record =
  record_data :: json
  record_resource :: string

text \<open>
  The response dict. \<open>top_resources\<close> and \<open>timings\<close> are keys that may be absent.
  Of the timer only the labels of its events are kept, in order: the durations are
  wall-clock time.
\<close>

record response =
  response_total :: int
  response_after :: "sort_value list option"
  response_records :: "found_record list"
  response_skipped_resources :: "string list"
  response_top_resources :: "(string \<times> int) list option"
  response_timings :: "string list option"

text \<open>
  Everything the two actions call that lives in other modules is a parameter:
  the query schema functions (an \<open>Inl\<close>/\<open>Some\<close> message is one of the two exceptions the
  actions catch), the resource and version helpers, the search backend, the registered
  plugins, the clock and the field helpers of guess_fields. \<open>lower\<close> is Python's
  \<open>unicode.lower\<close>, a parameter too: the characters here are bytes, and the method
  lowers every letter of Unicode.
\<close>

record ('c, 'e, 'f, 'a, 'r) environment = config +
  get_latest_query_version :: string
  validate_query :: "json \<Rightarrow> string \<Rightarrow> string option"
  translate_query :: "json \<Rightarrow> string \<Rightarrow> string + ('e, 'f) search"
  determine_resources_to_search ::
    "'c \<Rightarrow> string list option \<Rightarrow> (string \<rightharpoonup> int) option \<Rightarrow> string list \<times> string list"
  determine_version_filter ::
    "int option \<Rightarrow> string list \<Rightarrow> (string \<rightharpoonup> int) option \<Rightarrow> 'f"
  trim_index_name :: "string \<Rightarrow> string"
  execute :: "('e, 'f) search \<Rightarrow> string + search_result"
  multisearch_plugins :: "(response \<Rightarrow> response) list"
  now_timestamp :: int
  lower :: "string \<Rightarrow> string"
  find_searched_resources :: "('e, 'f) search \<Rightarrow> string list \<Rightarrow> string list"
  get_all_fields :: "string list \<Rightarrow> 'a"
  ignore :: "'a \<Rightarrow> string \<Rightarrow> 'a"
  guess_fields_plugins :: "(string list \<Rightarrow> 'a \<Rightarrow> 'a) list"
  get_single_resource_fields ::
    "'a \<Rightarrow> string \<Rightarrow> int \<Rightarrow> ('e, 'f) search \<Rightarrow> int \<Rightarrow> 'r"
  select_fields :: "'a \<Rightarrow> ('e, 'f) search \<Rightarrow> int \<Rightarrow> 'r"

text \<open>
  What an action does beyond returning: the searches it runs itself, the helpers of
  lib.query it hands its search to (by name), and the query it logs.
\<close>

datatype ('e, 'f) effect =
    Executed "('e, 'f) search"
  | Handed string "('e, 'f) search"
  | Logged json string

text \<open>
  The message of lines 81 and 304, \<^verbatim>\<open>The requested resources aren't accessible to this user\<close>
  (the apostrophe is character 0x27).
\<close>

definition no_resources_message :: string where
  "no_resources_message =
     ''The requested resources aren'' @ [CHR 0x27] @ ''t accessible to this user''"

subsection \<open>datastore_multisearch\<close>

text \<open>The defaults both actions give \<open>query\<close> and \<open>query_version\<close> first.\<close>

definition default_query :: "json option \<Rightarrow> json" where
  "default_query query = (case query of None \<Rightarrow> JDict [] | Some q \<Rightarrow> q)"

definition default_query_version ::
  "('c, 'e, 'f, 'a, 'r) environment \<Rightarrow> string option \<Rightarrow> string" where
  "default_query_version env query_version =
     (case query_version of None \<Rightarrow> get_latest_query_version env | Some v \<Rightarrow> v)"

text \<open>The sort of lines 90 to 95.\<close>

definition multisearch_sort :: "sort_key list" where
  "multisearch_sort =
     [\<lparr>sort_field = ''data.modified'', sort_order = ''desc'', unmapped_type = Some ''date''\<rparr>,
      \<lparr>sort_field = ''data._id'', sort_order = ''desc'', unmapped_type = None\<rparr>,
      \<lparr>sort_field = ''_index'', sort_order = ''desc'', unmapped_type = None\<rparr>]"

text \<open>
  Modelled from the spec: \<open>calculate_after\<close> of lib/query/utils.py is not among the
  sources. The spec: request size+1 records; if size+1 are returned, the extra record is
  dropped and a non-null cursor is emitted, built from the last returned record's sort-key
  tuple; otherwise no more pages exist and the cursor is null. The cursor is built from
  a returned record, so where dropping the extra record leaves none (size 0 and one
  hit) there is nothing to build it from: the page is empty and the cursor null.
\<close>

definition calculate_after ::
  "search_result \<Rightarrow> int \<Rightarrow> hit list \<times> sort_value list option" where
  "calculate_after result size' =
     (if int (length (result_hits result)) = size' + 1
      then (let hits = butlast (result_hits result)
            in (hits, if hits = [] then None else Some (hit_sort (last hits))))
      else (result_hits result, None))"

text \<open>
  Lines 83 to 107: the translated search with the version filter, the sort, the cursor,
  the size, the indexes and, when asked for, the aggregation on the index name.
  \<open>Search.sort\<close> replaces the sort, \<open>extra\<close> sets its keys, \<open>filter\<close> and
  \<open>index\<close> add to what is there.
\<close>

definition multisearch_search ::
  "('c, 'e, 'f, 'a, 'r) environment \<Rightarrow> ('e, 'f) search \<Rightarrow> int option \<Rightarrow> string list \<Rightarrow>
   (string \<rightharpoonup> int) option \<Rightarrow> int \<Rightarrow> sort_value list option \<Rightarrow> bool \<Rightarrow> ('e, 'f) search" where
  "multisearch_search env search version resource_ids resource_ids_and_versions size' after
     top_resources =
     (let version_filter =
            determine_version_filter env version resource_ids resource_ids_and_versions;
          search = search\<lparr>search_filters := search_filters search @ [version_filter]\<rparr>;
          search = search\<lparr>search_sort := multisearch_sort\<rparr>;
          search = (case after of None \<Rightarrow> search
                    | Some a \<Rightarrow> search\<lparr>search_after := Some a\<rparr>);
          search = search\<lparr>search_size := Some (size' + 1)\<rparr>;
          search = search\<lparr>search_index :=
                     search_index search @ map (prefix_resource env) resource_ids\<rparr>
      in if top_resources
         then search\<lparr>search_aggs := search_aggs search @ [(''indexes'', ''terms'', ''_index'')]\<rparr>
         else search)"

text \<open>Lines 120 to 137: the response dict before the plugins see it.\<close>

definition multisearch_response ::
  "('c, 'e, 'f, 'a, 'r) environment \<Rightarrow> search_result \<Rightarrow> hit list \<Rightarrow>
   sort_value list option \<Rightarrow> string list \<Rightarrow> bool \<Rightarrow> response" where
  "multisearch_response env result hits next_after skipped_resource_ids top_resources =
     (let response =
        \<lparr>response_total = result_total result,
         response_after = next_after,
         response_records =
           map (\<lambda>hit. \<lparr>record_data = hit_data hit,
                        record_resource = trim_index_name env (hit_index hit)\<rparr>) hits,
         response_skipped_resources = skipped_resource_ids,
         response_top_resources = None,
         response_timings = None\<rparr>
      in if top_resources
         then response\<lparr>response_top_resources :=
                Some (map (\<lambda>(key, doc_count). (trim_index_name env key, doc_count))
                        (result_index_buckets result))\<rparr>
         else response)"

text \<open>
  Lines 141 to 150: every registered plugin in turn replaces the response, then the
  timings are added when asked for.
\<close>

definition multisearch_finish ::
  "('c, 'e, 'f, 'a, 'r) environment \<Rightarrow> bool \<Rightarrow> response \<Rightarrow> response" where
  "multisearch_finish env timings response =
     (let response = fold (\<lambda>plugin response. plugin response) (multisearch_plugins env) response
      in if timings
         then response\<lparr>response_timings :=
                Some [''validate'', ''translate'', ''determine_resources'', ''version_filter'',
                      ''search_params'', ''run'', ''response'', ''response_modifiers'', ''log'']\<rparr>
         else response)"

definition datastore_multisearch ::
  "('c, 'e, 'f, 'a, 'r) environment \<Rightarrow> 'c \<Rightarrow> json option \<Rightarrow> string option \<Rightarrow> int option \<Rightarrow>
   string list option \<Rightarrow> (string \<rightharpoonup> int) option \<Rightarrow> int \<Rightarrow> sort_value list option \<Rightarrow>
   bool \<Rightarrow> bool \<Rightarrow> (error + response) \<times> ('e, 'f) effect list" where
  "datastore_multisearch env context query query_version version resource_ids
     resource_ids_and_versions size' after top_resources timings =
     (let query = default_query query;
          query_version = default_query_version env query_version;
          size' = max 0 (min size' 1000)
      in case validate_query env query query_version of
           Some message \<Rightarrow> (Inl (ValidationError message), [])
         | None \<Rightarrow>
      (case translate_query env query query_version of
           Inl message \<Rightarrow> (Inl (ValidationError message), [])
         | Inr search \<Rightarrow>
      (case determine_resources_to_search env context resource_ids resource_ids_and_versions of
         (resource_ids, skipped_resource_ids) \<Rightarrow>
      (if resource_ids = [] then (Inl (ValidationError no_resources_message), [])
       else
         (let search = multisearch_search env search version resource_ids
                         resource_ids_and_versions size' after top_resources
          in case execute env search of
               Inl failure \<Rightarrow> (Inl (BackendFailure failure), [Executed search])
             | Inr result \<Rightarrow>
          (case calculate_after result size' of
               (hits, next_after) \<Rightarrow>
                 (Inr (multisearch_finish env timings
                         (multisearch_response env result hits next_after
                            skipped_resource_ids top_resources)),
                  [Executed search, Logged query ''multisearch''])))))))"

subsection \<open>The order a sort gives the hits\<close>

text \<open>
  How the backend orders documents for a list of sort keys: the keys are compared in
  turn, the first that differs decides, and a document without a value for a key comes
  after those that have one. A document is seen through the three fields the sort of
  datastore_multisearch names.
\<close>

record document =
  doc_modified :: "int option"
  doc_id :: int
  doc_index :: string

definition sort_value_of :: "document \<Rightarrow> sort_key \<Rightarrow> sort_value" where
  "sort_value_of d k =
     (if sort_field k = ''data.modified''
      then (case doc_modified d of None \<Rightarrow> SNull | Some m \<Rightarrow> SNum m)
      else if sort_field k = ''data._id'' then SNum (doc_id d)
      else if sort_field k = ''_index'' then SStr (doc_index d)
      else SNull)"

fun sort_value_less :: "sort_value \<Rightarrow> sort_value \<Rightarrow> bool" where
  "sort_value_less (SNum x) (SNum y) = (x < y)"
| "sort_value_less (SStr x) (SStr y) = (x < y)"
| "sort_value_less (SNum x) (SStr y) = True"
| "sort_value_less _ _ = False"

definition key_before :: "sort_key \<Rightarrow> sort_value \<Rightarrow> sort_value \<Rightarrow> bool" where
  "key_before k a b =
     (if a = SNull then False
      else if b = SNull then True
      else if sort_order k = ''desc'' then sort_value_less b a
      else sort_value_less a b)"

fun precedes :: "sort_key list \<Rightarrow> sort_value list \<Rightarrow> sort_value list \<Rightarrow> bool" where
  "precedes (k # ks) (a # as) (b # bs) = (key_before k a b \<or> (a = b \<and> precedes ks as bs))"
| "precedes _ _ _ = False"

definition sorts_before :: "sort_key list \<Rightarrow> document \<Rightarrow> document \<Rightarrow> bool" where
  "sorts_before ks d1 d2 = precedes ks (map (sort_value_of d1) ks) (map (sort_value_of d2) ks)"

subsection \<open>datastore_resolve_slug\<close>

text \<open>
  The stored slug object with the attributes the action reads, and the slug lookup and
  the date formatting as parameters.
\<close>

record 'd slug =
  slug_query :: json
  slug_query_version :: string
  slug_version :: "int option"
  slug_resource_ids :: "string list option"
  slug_resource_ids_and_versions :: "(string \<rightharpoonup> int) option"
  slug_created :: 'd

record 'd slug_store =
  resolve_slug :: "string \<Rightarrow> 'd slug option"
  isoformat :: "'d \<Rightarrow> string"

record resolved_slug =
  rs_query :: json
  rs_query_version :: string
  rs_version :: "int option"
  rs_resource_ids :: "string list option"
  rs_resource_ids_and_versions :: "(string \<rightharpoonup> int) option"
  rs_created :: string

definition datastore_resolve_slug :: "'d slug_store \<Rightarrow> string \<Rightarrow> error + resolved_slug" where
  "datastore_resolve_slug store slug_string =
     (case resolve_slug store slug_string of
        None \<Rightarrow> Inl (ValidationError ''Slug not found'')
      | Some found_slug \<Rightarrow>
          Inr \<lparr>rs_query = slug_query found_slug,
               rs_query_version = slug_query_version found_slug,
               rs_version = slug_version found_slug,
               rs_resource_ids = slug_resource_ids found_slug,
               rs_resource_ids_and_versions = slug_resource_ids_and_versions found_slug,
               rs_created = isoformat store (slug_created found_slug)\<rparr>)"

subsection \<open>datastore_guess_fields\<close>

text \<open>
  Lines 306 to 313: the version (the clock's when none is given), the version filter
  and size 0.
\<close>

definition default_version :: "('c, 'e, 'f, 'a, 'r) environment \<Rightarrow> int option \<Rightarrow> int" where
  "default_version env version = (case version of None \<Rightarrow> now_timestamp env | Some v \<Rightarrow> v)"

definition guess_fields_search ::
  "('c, 'e, 'f, 'a, 'r) environment \<Rightarrow> ('e, 'f) search \<Rightarrow> int \<Rightarrow> string list \<Rightarrow>
   (string \<rightharpoonup> int) option \<Rightarrow> ('e, 'f) search" where
  "guess_fields_search env search version resource_ids resource_ids_and_versions =
     (let version_filter = determine_version_filter env (Some version) resource_ids
                             resource_ids_and_versions;
          search = search\<lparr>search_filters := search_filters search @ [version_filter]\<rparr>
      in search\<lparr>search_size := Some 0\<rparr>)"

text \<open>
  Lines 291 and 317 to 323. \<open>ignore_groups\<close> becomes a set of lowercased names (here
  without repetition, in the order given: Python leaves the order of the loop over a set
  open); every group is ignored, then every plugin replaces the fields object.
\<close>

definition guess_fields_all_fields ::
  "('c, 'e, 'f, 'a, 'r) environment \<Rightarrow> string list \<Rightarrow> string list option \<Rightarrow> 'a" where
  "guess_fields_all_fields env resource_ids ignore_groups =
     (let ignore_groups =
            (case ignore_groups of None \<Rightarrow> [] | Some gs \<Rightarrow> remdups (map (lower env) gs));
          all_fields = get_all_fields env resource_ids;
          all_fields = fold (\<lambda>group all_fields. ignore env all_fields group)
                         ignore_groups all_fields
      in fold (\<lambda>plugin all_fields. plugin resource_ids all_fields)
           (guess_fields_plugins env) all_fields)"

text \<open>
  The action. \<open>len(resource_ids) == 1\<close> is the pattern \<open>[resource_id]\<close>, and
  \<open>resource_ids_and_versions[resource_id]\<close> a subscript that may raise KeyError.
\<close>

definition datastore_guess_fields ::
  "('c, 'e, 'f, 'a, 'r) environment \<Rightarrow> 'c \<Rightarrow> json option \<Rightarrow> string option \<Rightarrow> int option \<Rightarrow>
   string list option \<Rightarrow> (string \<rightharpoonup> int) option \<Rightarrow> int \<Rightarrow> string list option \<Rightarrow>
   (error + 'r) \<times> ('e, 'f) effect list" where
  "datastore_guess_fields env context query query_version version resource_ids
     resource_ids_and_versions size' ignore_groups =
     (let query = default_query query;
          query_version = default_query_version env query_version
      in case validate_query env query query_version of
           Some message \<Rightarrow> (Inl (ValidationError message), [])
         | None \<Rightarrow>
      (case translate_query env query query_version of
           Inl message \<Rightarrow> (Inl (ValidationError message), [])
         | Inr search \<Rightarrow>
      (case determine_resources_to_search env context resource_ids resource_ids_and_versions of
         (resource_ids, skipped_resource_ids) \<Rightarrow>
      (if resource_ids = [] then (Inl (ValidationError no_resources_message), [])
       else
         (let version = default_version env version;
              search = guess_fields_search env search version resource_ids
                         resource_ids_and_versions;
              found = [Handed ''find_searched_resources'' search];
              resource_ids = find_searched_resources env search resource_ids;
              all_fields = guess_fields_all_fields env resource_ids ignore_groups
          in case resource_ids of
               [resource_id] \<Rightarrow>
                 (case resource_ids_and_versions of
                    None \<Rightarrow>
                      (Inr (get_single_resource_fields env all_fields resource_id version
                              search size'),
                       found @ [Handed ''get_single_resource_fields'' search])
                  | Some versions \<Rightarrow>
                      (case versions resource_id of
                         None \<Rightarrow> (Inl KeyError, found)
                       | Some up_to_version \<Rightarrow>
                           (Inr (get_single_resource_fields env all_fields resource_id
                                   up_to_version search size'),
                            found @ [Handed ''get_single_resource_fields'' search])))
             | _ \<Rightarrow>
                 (let size' = max 0 (min size' 25)
                  in (Inr (select_fields env all_fields search size'),
                      found @ [Handed ''select_fields'' search])))))))"

section \<open>Example backends\<close>

text \<open>A resource with three declared fields at rounded version 7, of which only name has
  records; the same resource before any version exists; and the same backend later, with
  another mapping and other counts.\<close>

definition example_mapping :: json where
  "example_mapping =
     JDict [(''mappings'', JDict [(''_doc'', JDict [(''properties'', JDict [
       (''data'', JDict [(''properties'', JDict [
          (''name'', JDict [(''type'', JStr ''keyword'')]),
          (''_id'', JDict [(''type'', JStr ''long'')]),
          (''age'', JDict [(''type'', JStr ''keyword'')])])]),
       (''meta'', JDict [])])])])]"

definition example_searcher :: searcher where
  "example_searcher =
     \<lparr>elasticsearch_index_prefix = ''nhm-'',
      DOC_TYPE = ''_doc'',
      get_rounded_versions = (\<lambda>indexes version. map_of (map (\<lambda>i. (i, Some 7)) indexes)),
      get_mapping = (\<lambda>index. [index \<mapsto> example_mapping]),
      hits_total = (\<lambda>index search. if exists_field search = ''data.name'' then 3 else 0)\<rparr>"

definition unversioned_searcher :: searcher where
  "unversioned_searcher =
     example_searcher\<lparr>get_rounded_versions :=
       (\<lambda>indexes version. map_of (map (\<lambda>i. (i, None)) indexes))\<rparr>"

definition later_searcher :: searcher where
  "later_searcher =
     example_searcher\<lparr>get_mapping := (\<lambda>index. [index \<mapsto> JDict []]),
       hits_total := (\<lambda>index search. 5)\<rparr>"

definition example_cache :: field_cache where
  "example_cache = [(''r1'', Some 7) \<mapsto> (example_mapping, [id_field, string_field ''name''])]"


section \<open>An example environment\<close>

text \<open>
  Two hits of a search over two resources, an environment whose backend answers every
  search with them, the same environment with one plugin registered that clears the
  cursor of the response, and the same environment with a backend that answers with the
  first hit alone. Its \<open>lower\<close> lowers the letters A to Z.
\<close>

definition lower_char :: "char \<Rightarrow> char" where
  "lower_char c =
     (if CHR ''A'' \<le> c \<and> c \<le> CHR ''Z'' then char_of (of_char c + (32::nat)) else c)"

definition first_hit :: hit where
  "first_hit =
     \<lparr>hit_data = JDict [(''_id'', JInt 4), (''modified'', JInt 1500)],
      hit_index = ''nhm-r2'',
      hit_sort = [SNum 1500, SNum 4, SStr ''nhm-r2'']\<rparr>"

definition second_hit :: hit where
  "second_hit =
     \<lparr>hit_data = JDict [(''_id'', JInt 4), (''modified'', JInt 1500)],
      hit_index = ''nhm-r1'',
      hit_sort = [SNum 1500, SNum 4, SStr ''nhm-r1'']\<rparr>"

definition example_result :: search_result where
  "example_result =
     \<lparr>result_hits = [first_hit, second_hit], result_total = 5, result_index_buckets = []\<rparr>"

definition translated :: "(string, string) search" where
  "translated =
     \<lparr>search_query = ''match_all'', search_filters = [], search_sort = [],
      search_after = None, search_size = None, search_index = [], search_aggs = []\<rparr>"

definition example_environment ::
  "(unit, string, string, string list, string \<times> int \<times> int) environment" where
  "example_environment =
     \<lparr>elasticsearch_index_prefix = ''nhm-'',
      get_latest_query_version = ''v1.0.0'',
      validate_query = (\<lambda>query query_version. None),
      translate_query = (\<lambda>query query_version. Inr translated),
      determine_resources_to_search =
        (\<lambda>context resource_ids resource_ids_and_versions.
           (case resource_ids of None \<Rightarrow> [''r1'', ''r2''] | Some ids \<Rightarrow> ids, [])),
      determine_version_filter =
        (\<lambda>version resource_ids resource_ids_and_versions. ''version filter''),
      trim_index_name = drop 4,
      execute = (\<lambda>search. Inr example_result),
      multisearch_plugins = [],
      now_timestamp = 1000,
      lower = map lower_char,
      find_searched_resources = (\<lambda>search resource_ids. resource_ids),
      get_all_fields = (\<lambda>resource_ids. resource_ids),
      ignore = (\<lambda>all_fields group. all_fields),
      guess_fields_plugins = [],
      get_single_resource_fields =
        (\<lambda>all_fields resource_id up_to_version search n. (resource_id, up_to_version, n)),
      select_fields = (\<lambda>all_fields search n. (''*'', 0, n))\<rparr>"

definition plugin_environment ::
  "(unit, string, string, string list, string \<times> int \<times> int) environment" where
  "plugin_environment =
     example_environment\<lparr>multisearch_plugins :=
       [\<lambda>response. response\<lparr>response_after := None\<rparr>]\<rparr>"

definition single_result :: search_result where
  "single_result =
     \<lparr>result_hits = [first_hit], result_total = 1, result_index_buckets = []\<rparr>"

definition single_environment ::
  "(unit, string, string, string list, string \<times> int \<times> int) environment" where
  "single_environment = example_environment\<lparr>execute := (\<lambda>search. Inr single_result)\<rparr>"

definition example_slug :: "int slug" where
  "example_slug =
     \<lparr>slug_query = JDict [], slug_query_version = ''v1.0.0'', slug_version = Some 7,
      slug_resource_ids = Some [''r1''], slug_resource_ids_and_versions = None,
      slug_created = 1000\<rparr>"

definition example_store :: "int slug_store" where
  "example_store =
     \<lparr>resolve_slug = (\<lambda>slug_string. if slug_string = ''quick-brown-fox''
                                        then Some example_slug else None),
      isoformat = (\<lambda>created. ''1970-01-01T00:16:40'')\<rparr>"

section \<open>Properties of get_fields\<close>

subsection \<open>The paths through get_fields\<close>

lemma existing_fields_filter:
  "existing_fields s index rv names =
     map string_field (filter (\<lambda>n. hits_total s index (exists_at n rv) > 0) names)"
  by (induction names) simp_all

lemma sorted_keys_distinct: "sorted_keys j = Inr names \<Longrightarrow> distinct names"
  by (cases j) auto

lemma data_field_names_distinct: "data_field_names s m = Inr names \<Longrightarrow> distinct names"
  by (auto simp: data_field_names_def split: sum.splits dest: sorted_keys_distinct)

lemma get_fields_key_error:
  "resolved_version s rid v = None \<Longrightarrow>
   get_fields s c rid v = (Inl KeyError, c, [GetRoundedVersions [prefix_resource s rid] v])"
  by (simp add: get_fields_def resolved_version_def Let_def)

lemma get_fields_hit:
  "resolved_version s rid v = Some rvo \<Longrightarrow> c (rid, rvo) = Some cached \<Longrightarrow>
   get_fields s c rid v = (Inr cached, c, [GetRoundedVersions [prefix_resource s rid] v])"
  by (simp add: get_fields_def resolved_version_def Let_def)

lemma get_fields_no_mapping:
  "resolved_version s rid v = Some rvo \<Longrightarrow> c (rid, rvo) = None \<Longrightarrow>
   get_mapping s (prefix_resource s rid) (prefix_resource s rid) = None \<Longrightarrow>
   get_fields s c rid v =
     (Inl KeyError, c,
      [GetRoundedVersions [prefix_resource s rid] v, GetMapping (prefix_resource s rid)])"
  by (simp add: get_fields_def resolved_version_def Let_def)

lemma get_fields_no_version:
  "resolved_version s rid v = Some None \<Longrightarrow> c (rid, None) = None \<Longrightarrow>
   get_mapping s (prefix_resource s rid) (prefix_resource s rid) = Some mapping \<Longrightarrow>
   get_fields s c rid v =
     (Inr (mapping, [id_field]), c,
      [GetRoundedVersions [prefix_resource s rid] v, GetMapping (prefix_resource s rid)])"
  by (simp add: get_fields_def resolved_version_def Let_def)

lemma get_fields_bad_mapping:
  "resolved_version s rid v = Some (Some rv) \<Longrightarrow> c (rid, Some rv) = None \<Longrightarrow>
   get_mapping s (prefix_resource s rid) (prefix_resource s rid) = Some mapping \<Longrightarrow>
   data_field_names s mapping = Inl e \<Longrightarrow>
   get_fields s c rid v =
     (Inl e, c,
      [GetRoundedVersions [prefix_resource s rid] v, GetMapping (prefix_resource s rid)])"
  by (simp add: get_fields_def resolved_version_def Let_def)

lemma get_fields_no_id:
  "resolved_version s rid v = Some (Some rv) \<Longrightarrow> c (rid, Some rv) = None \<Longrightarrow>
   get_mapping s (prefix_resource s rid) (prefix_resource s rid) = Some mapping \<Longrightarrow>
   data_field_names s mapping = Inr sorted_names \<Longrightarrow> ''_id'' \<notin> set sorted_names \<Longrightarrow>
   get_fields s c rid v =
     (Inl ValueError, c,
      [GetRoundedVersions [prefix_resource s rid] v, GetMapping (prefix_resource s rid)])"
  by (simp add: get_fields_def resolved_version_def Let_def)

lemma get_fields_miss:
  "resolved_version s rid v = Some (Some rv) \<Longrightarrow> c (rid, Some rv) = None \<Longrightarrow>
   get_mapping s (prefix_resource s rid) (prefix_resource s rid) = Some mapping \<Longrightarrow>
   data_field_names s mapping = Inr sorted_names \<Longrightarrow> ''_id'' \<in> set sorted_names \<Longrightarrow>
   get_fields s c rid v =
     (Inr (mapping,
           id_field # existing_fields s (prefix_resource s rid) rv (remove1 ''_id'' sorted_names)),
      c((rid, Some rv) \<mapsto>
        (mapping,
         id_field # existing_fields s (prefix_resource s rid) rv (remove1 ''_id'' sorted_names))),
      [GetRoundedVersions [prefix_resource s rid] v, GetMapping (prefix_resource s rid),
       MultiSearchExecute (prefix_resource s rid)
         (map (\<lambda>field. exists_at field rv) (remove1 ''_id'' sorted_names))])"
  by (simp add: get_fields_def resolved_version_def Let_def)

text \<open>Every call takes one of the seven paths above.\<close>

lemma get_fields_paths:
  obtains
    (key_error) "resolved_version s rid v = None"
  | (hit) rvo cached where "resolved_version s rid v = Some rvo" "c (rid, rvo) = Some cached"
  | (no_mapping) rvo where "resolved_version s rid v = Some rvo" "c (rid, rvo) = None"
      "get_mapping s (prefix_resource s rid) (prefix_resource s rid) = None"
  | (no_version) mapping where "resolved_version s rid v = Some None" "c (rid, None) = None"
      "get_mapping s (prefix_resource s rid) (prefix_resource s rid) = Some mapping"
  | (bad_mapping) rv mapping e where "resolved_version s rid v = Some (Some rv)"
      "c (rid, Some rv) = None"
      "get_mapping s (prefix_resource s rid) (prefix_resource s rid) = Some mapping"
      "data_field_names s mapping = Inl e"
  | (no_id) rv mapping sorted_names where "resolved_version s rid v = Some (Some rv)"
      "c (rid, Some rv) = None"
      "get_mapping s (prefix_resource s rid) (prefix_resource s rid) = Some mapping"
      "data_field_names s mapping = Inr sorted_names" "''_id'' \<notin> set sorted_names"
  | (miss) rv mapping sorted_names where "resolved_version s rid v = Some (Some rv)"
      "c (rid, Some rv) = None"
      "get_mapping s (prefix_resource s rid) (prefix_resource s rid) = Some mapping"
      "data_field_names s mapping = Inr sorted_names" "''_id'' \<in> set sorted_names"
proof (cases "resolved_version s rid v")
  case None
  then show ?thesis by (rule key_error)
next
  case (Some rvo)
  note rvo = Some
  show ?thesis
  proof (cases "c (rid, rvo)")
    case (Some cached)
    with rvo show ?thesis by (rule hit)
  next
    case None
    note absent = None
    show ?thesis
    proof (cases "get_mapping s (prefix_resource s rid) (prefix_resource s rid)")
      case None
      with rvo absent show ?thesis by (rule no_mapping)
    next
      case (Some mapping)
      note mapping = Some
      show ?thesis
      proof (cases rvo)
        case None
        with rvo absent mapping show ?thesis by (simp add: no_version)
      next
        case (Some rv)
        with rvo absent have rv: "resolved_version s rid v = Some (Some rv)"
          "c (rid, Some rv) = None" by simp_all
        show ?thesis
        proof (cases "data_field_names s mapping")
          case (Inl e)
          with rv mapping show ?thesis by (rule bad_mapping)
        next
          case (Inr sorted_names)
          with rv mapping show ?thesis
            by (cases "''_id'' \<in> set sorted_names") (blast intro: no_id miss)+
        qed
      qed
    qed
  qed
qed

subsection \<open>What a call does to the cache\<close>

lemma get_fields_cache_frame:
  assumes "get_fields s c rid v = (r, c', calls)"
  shows "(\<forall>k entry. c k = Some entry \<longrightarrow> c' k = Some entry)
    \<and> (\<forall>k res. c k = None \<longrightarrow> c' k = Some res \<longrightarrow>
          fst k = rid \<and> snd k \<noteq> None \<and> resolved_version s rid v = Some (snd k) \<and> r = Inr res)"
proof (cases rule: get_fields_paths [where s = s and rid = rid and v = v and c = c])
  case key_error
  from get_fields_key_error [OF key_error, of c] assms show ?thesis by auto
next
  case (hit rvo cached)
  from get_fields_hit [where c = c, OF hit] assms show ?thesis by auto
next
  case (no_mapping rvo)
  from get_fields_no_mapping [where c = c, OF no_mapping] assms show ?thesis by auto
next
  case (no_version mapping)
  from get_fields_no_version [where c = c, OF no_version] assms show ?thesis by auto
next
  case (bad_mapping rv mapping e)
  from get_fields_bad_mapping [where c = c, OF bad_mapping] assms show ?thesis by auto
next
  case (no_id rv mapping sorted_names)
  from get_fields_no_id [where c = c, OF no_id] assms show ?thesis by auto
next
  case (miss rv mapping sorted_names)
  from get_fields_miss [where c = c, OF miss] assms miss(1,2) show ?thesis
    by (auto split: if_splits)
qed

text \<open>A call that returns with a rounded version leaves its result in the cache.\<close>

lemma get_fields_result_cached:
  assumes "get_fields s c rid v = (Inr res, c', calls)"
    and "resolved_version s rid v = Some (Some rv)"
  shows "c' (rid, Some rv) = Some res"
proof (cases rule: get_fields_paths [where s = s and rid = rid and v = v and c = c])
  case key_error
  with assms show ?thesis by simp
next
  case (hit rvo cached)
  from get_fields_hit [where c = c, OF hit] assms hit show ?thesis by auto
next
  case (no_mapping rvo)
  from get_fields_no_mapping [where c = c, OF no_mapping] assms show ?thesis by auto
next
  case (no_version mapping)
  with assms show ?thesis by simp
next
  case (bad_mapping rv mapping e)
  from get_fields_bad_mapping [where c = c, OF bad_mapping] assms show ?thesis by auto
next
  case (no_id rv mapping sorted_names)
  from get_fields_no_id [where c = c, OF no_id] assms show ?thesis by auto
next
  case (miss rv' mapping sorted_names)
  from get_fields_miss [where c = c, OF miss] assms miss(1) show ?thesis by auto
qed

text \<open>With the backend unchanged, calling again repeats the result without a multi-search.\<close>

lemma get_fields_again:
  assumes first: "get_fields s c rid v = (r1, c1, calls1)"
    and same: "resolved_version s rid v' = resolved_version s rid v"
  shows "\<exists>calls2. get_fields s c1 rid v' = (r1, c1, calls2)
           \<and> (\<forall>index searches. MultiSearchExecute index searches \<notin> set calls2)"
proof (cases rule: get_fields_paths [where s = s and rid = rid and v = v and c = c])
  case key_error
  from get_fields_key_error [OF key_error, of c] first have "r1 = Inl KeyError" "c1 = c" by auto
  moreover from key_error same have "resolved_version s rid v' = None" by simp
  ultimately show ?thesis by (simp add: get_fields_key_error)
next
  case (hit rvo cached)
  from get_fields_hit [where c = c, OF hit] first have "r1 = Inr cached" "c1 = c" by auto
  moreover from hit same have "resolved_version s rid v' = Some rvo" by simp
  ultimately show ?thesis using hit(2) by (simp add: get_fields_hit)
next
  case (no_mapping rvo)
  from get_fields_no_mapping [where c = c, OF no_mapping] first
  have "r1 = Inl KeyError" "c1 = c" by auto
  moreover from no_mapping same have "resolved_version s rid v' = Some rvo" by simp
  ultimately show ?thesis using no_mapping(2,3) by (simp add: get_fields_no_mapping)
next
  case (no_version mapping)
  from get_fields_no_version [where c = c, OF no_version] first
  have "r1 = Inr (mapping, [id_field])" "c1 = c" by auto
  moreover from no_version same have "resolved_version s rid v' = Some None" by simp
  ultimately show ?thesis using no_version(2,3) by (simp add: get_fields_no_version)
next
  case (bad_mapping rv mapping e)
  from get_fields_bad_mapping [where c = c, OF bad_mapping] first
  have "r1 = Inl e" "c1 = c" by auto
  moreover from bad_mapping same have "resolved_version s rid v' = Some (Some rv)" by simp
  ultimately show ?thesis using bad_mapping(2,3,4) by (simp add: get_fields_bad_mapping)
next
  case (no_id rv mapping sorted_names)
  from get_fields_no_id [where c = c, OF no_id] first
  have "r1 = Inl ValueError" "c1 = c" by auto
  moreover from no_id same have "resolved_version s rid v' = Some (Some rv)" by simp
  ultimately show ?thesis using no_id(2,3,4,5) by (simp add: get_fields_no_id)
next
  case (miss rv mapping sorted_names)
  from first obtain res where r1: "r1 = Inr res"
    using get_fields_miss [where c = c, OF miss] by auto
  with first miss(1) have "c1 (rid, Some rv) = Some res"
    by (simp add: get_fields_result_cached)
  moreover from miss same have "resolved_version s rid v' = Some (Some rv)" by simp
  ultimately show ?thesis using r1 by (simp add: get_fields_hit)
qed

subsection \<open>The cache holds only what get_fields built\<close>

lemma miss_result_listed:
  assumes "data_field_names s mapping = Inr sorted_names"
  shows "listed_fields (id_field # existing_fields s index rv (remove1 ''_id'' sorted_names))"
proof -
  from assms have d: "distinct sorted_names" by (rule data_field_names_distinct)
  let ?names = "filter (\<lambda>n. hits_total s index (exists_at n rv) > 0) (remove1 ''_id'' sorted_names)"
  have "distinct ?names" using d by simp
  moreover have "''_id'' \<notin> set ?names" using d by simp
  ultimately show ?thesis
    unfolding listed_fields_def existing_fields_filter by blast
qed

lemma id_only_listed: "listed_fields [id_field]"
  unfolding listed_fields_def by (intro exI [of _ "[]"]) simp

lemma get_fields_result_listed:
  assumes ok: "cache_ok c" and run: "get_fields s c rid v = (Inr (mapping, field_list), c', calls)"
  shows "listed_fields field_list"
proof (cases rule: get_fields_paths [where s = s and rid = rid and v = v and c = c])
  case key_error
  from get_fields_key_error [OF key_error, of c] run show ?thesis by simp
next
  case (hit rvo cached)
  from get_fields_hit [where c = c, OF hit] run hit(2) ok show ?thesis
    by (auto simp: cache_ok_def)
next
  case (no_mapping rvo)
  from get_fields_no_mapping [where c = c, OF no_mapping] run show ?thesis by simp
next
  case (no_version m)
  from get_fields_no_version [where c = c, OF no_version] run show ?thesis
    by (auto simp: id_only_listed)
next
  case (bad_mapping rv m e)
  from get_fields_bad_mapping [where c = c, OF bad_mapping] run show ?thesis by simp
next
  case (no_id rv m sorted_names)
  from get_fields_no_id [where c = c, OF no_id] run show ?thesis by simp
next
  case (miss rv m sorted_names)
  from get_fields_miss [where c = c, OF miss] run miss_result_listed [OF miss(4)]
  show ?thesis by auto
qed

lemma get_fields_cache_ok:
  assumes ok: "cache_ok c" and run: "get_fields s c rid v = (r, c', calls)"
  shows "cache_ok c'"
  unfolding cache_ok_def
proof (intro allI impI)
  fix rid' rvo m fs
  assume entry: "c' (rid', rvo) = Some (m, fs)"
  show "rvo \<noteq> None \<and> listed_fields fs"
  proof (cases "c (rid', rvo)")
    case (Some old)
    with get_fields_cache_frame [OF run] have "c' (rid', rvo) = Some old" by blast
    with entry Some have "c (rid', rvo) = Some (m, fs)" by simp
    with ok show ?thesis by (auto simp: cache_ok_def)
  next
    case None
    with get_fields_cache_frame [OF run] entry
    have "rvo \<noteq> None" and "r = Inr (m, fs)" by fastforce+
    with ok run show ?thesis by (auto dest: get_fields_result_listed)
  qed
qed

lemma reachable_cache_ok: "reachable_cache c \<Longrightarrow> cache_ok c"
proof (induction rule: reachable_cache.induct)
  case start
  show ?case by (simp add: cache_ok_def)
next
  case (call c s resource_id version r c' calls)
  then show ?case by (blast intro: get_fields_cache_ok)
qed

lemma reachable_no_unversioned_entry: "reachable_cache c \<Longrightarrow> c (rid, None) = None"
  using reachable_cache_ok [of c] by (cases "c (rid, None)") (auto simp: cache_ok_def)

lemma listed_fields_shape:
  assumes "listed_fields fs"
  shows "fs \<noteq> [] \<and> hd fs = id_field
    \<and> length (filter (\<lambda>f. field_id f = ''_id'') fs) = 1
    \<and> (\<forall>f\<in>set fs. field_type f \<noteq> ''string'' \<longrightarrow> f = id_field)"
proof -
  from assms obtain names where fs: "fs = id_field # map string_field names"
    and nid: "''_id'' \<notin> set names" unfolding listed_fields_def by blast
  have "filter (\<lambda>f. field_id f = ''_id'') (map string_field names) = []"
    using nid by (induction names) (auto simp: string_field_def)
  with fs show ?thesis by (auto simp: id_field_def string_field_def)
qed

subsection \<open>The example backend\<close>

lemma example_index: "prefix_resource example_searcher ''r1'' = ''nhm-r1''"
  by (simp add: prefix_resource_def example_searcher_def)

lemma example_version: "resolved_version example_searcher ''r1'' None = Some (Some 7)"
  by (simp add: resolved_version_def example_index) (simp add: example_searcher_def)

lemma example_get_mapping:
  "get_mapping example_searcher ''nhm-r1'' ''nhm-r1'' = Some example_mapping"
  by (simp add: example_searcher_def)

lemma example_names:
  "data_field_names example_searcher example_mapping = Inr [''_id'', ''age'', ''name'']"
  by (simp add: data_field_names_def example_searcher_def example_mapping_def)

lemma example_existing:
  "existing_fields example_searcher ''nhm-r1'' 7 [''age'', ''name''] = [string_field ''name'']"
  by (simp add: example_searcher_def exists_at_def prefix_field_def)

lemma example_run:
  "get_fields example_searcher Map.empty ''r1'' None =
     (Inr (example_mapping, [id_field, string_field ''name'']), example_cache,
      [GetRoundedVersions [''nhm-r1''] None, GetMapping ''nhm-r1'',
       MultiSearchExecute ''nhm-r1'' [exists_at ''age'' 7, exists_at ''name'' 7]])"
  using get_fields_miss [where c = Map.empty and s = example_searcher and rid = "''r1''"
      and v = None and rv = 7 and mapping = example_mapping
      and sorted_names = "[''_id'', ''age'', ''name'']"]
  by (simp add: example_index example_version example_get_mapping example_names example_existing
      example_cache_def del: existing_fields.simps)

lemma later_index: "prefix_resource later_searcher ''r1'' = ''nhm-r1''"
  by (simp add: prefix_resource_def later_searcher_def example_searcher_def)

lemma later_version: "resolved_version later_searcher ''r1'' (Some 9) = Some (Some 7)"
  by (simp add: resolved_version_def later_index) (simp add: later_searcher_def example_searcher_def)

lemma unversioned_index: "prefix_resource unversioned_searcher ''r1'' = ''nhm-r1''"
  by (simp add: prefix_resource_def unversioned_searcher_def example_searcher_def)

lemma unversioned_version: "resolved_version unversioned_searcher ''r1'' None = Some None"
  by (simp add: resolved_version_def unversioned_index)
     (simp add: unversioned_searcher_def example_searcher_def)

lemma unversioned_get_mapping:
  "get_mapping unversioned_searcher ''nhm-r1'' ''nhm-r1'' = Some example_mapping"
  by (simp add: unversioned_searcher_def example_searcher_def)

lemma example_cache_reachable: "reachable_cache example_cache"
  using reachable_cache.call [OF reachable_cache.start example_run] .

section \<open>The claims about get_fields\<close>

text \<open>
  Claim C3. The cache is keyed by (resource_id, rounded_version), and get_fields never
  overwrites or removes an entry: whatever was in the cache before a call is there
  unchanged after it, and an entry that is new sits under the call's resource id and
  rounded version. Of two calls for the same resource whose versions resolve to the same
  rounded version, the second returns what the first returned, leaves the cache as it
  is and runs no multi-search: whenever the first call returned with a rounded version
  (then even if the backend has changed in between), and in every case when the backend
  is the same for both calls.
\<close>

theorem get_fields_cache_stable:
  assumes first: "get_fields s c resource_id version = (r1, c1, calls1)"
    and second: "get_fields s' c1 resource_id version' = (r2, c2, calls2)"
    and same: "resolved_version s' resource_id version' = resolved_version s resource_id version"
  shows "(\<forall>k entry. c k = Some entry \<longrightarrow> c1 k = Some entry)
    \<and> (\<forall>k entry. c k = None \<longrightarrow> c1 k = Some entry \<longrightarrow>
          fst k = resource_id \<and> resolved_version s resource_id version = Some (snd k))
    \<and> ((\<exists>res rv. r1 = Inr res \<and> resolved_version s resource_id version = Some (Some rv)) \<longrightarrow>
          r2 = r1 \<and> c2 = c1
          \<and> (\<forall>index searches. MultiSearchExecute index searches \<notin> set calls2))
    \<and> (s' = s \<longrightarrow>
          r2 = r1 \<and> c2 = c1
          \<and> (\<forall>index searches. MultiSearchExecute index searches \<notin> set calls2))"
proof (intro conjI)
  from get_fields_cache_frame [OF first]
  show "\<forall>k entry. c k = Some entry \<longrightarrow> c1 k = Some entry" by blast
  from get_fields_cache_frame [OF first]
  show "\<forall>k entry. c k = None \<longrightarrow> c1 k = Some entry \<longrightarrow>
          fst k = resource_id \<and> resolved_version s resource_id version = Some (snd k)"
    by blast
  show "(\<exists>res rv. r1 = Inr res \<and> resolved_version s resource_id version = Some (Some rv)) \<longrightarrow>
          r2 = r1 \<and> c2 = c1
          \<and> (\<forall>index searches. MultiSearchExecute index searches \<notin> set calls2)"
  proof
    assume "\<exists>res rv. r1 = Inr res \<and> resolved_version s resource_id version = Some (Some rv)"
    then obtain res rv where r1: "r1 = Inr res"
      and rv: "resolved_version s resource_id version = Some (Some rv)" by blast
    from first r1 rv have "c1 (resource_id, Some rv) = Some res"
      by (simp add: get_fields_result_cached)
    moreover from rv same have "resolved_version s' resource_id version' = Some (Some rv)"
      by simp
    ultimately have "get_fields s' c1 resource_id version' =
        (Inr res, c1, [GetRoundedVersions [prefix_resource s' resource_id] version'])"
      by (rule get_fields_hit [rotated])
    with second r1 show "r2 = r1 \<and> c2 = c1
        \<and> (\<forall>index searches. MultiSearchExecute index searches \<notin> set calls2)"
      by auto
  qed
  show "s' = s \<longrightarrow> r2 = r1 \<and> c2 = c1
          \<and> (\<forall>index searches. MultiSearchExecute index searches \<notin> set calls2)"
  proof
    assume "s' = s"
    with same have "resolved_version s resource_id version' = resolved_version s resource_id version"
      by simp
    from get_fields_again [OF first this] second \<open>s' = s\<close>
    show "r2 = r1 \<and> c2 = c1
        \<and> (\<forall>index searches. MultiSearchExecute index searches \<notin> set calls2)"
      by auto
  qed
qed

text \<open>
  The first call fills the empty cache; the second asks for another version that rounds
  to the same one, against a backend whose mapping and counts have changed.
\<close>

theorem get_fields_cache_stable_witness:
  "get_fields example_searcher Map.empty ''r1'' None =
     (Inr (example_mapping, [id_field, string_field ''name'']), example_cache,
      [GetRoundedVersions [''nhm-r1''] None, GetMapping ''nhm-r1'',
       MultiSearchExecute ''nhm-r1'' [exists_at ''age'' 7, exists_at ''name'' 7]])
   \<and> resolved_version later_searcher ''r1'' (Some 9) = resolved_version example_searcher ''r1'' None
   \<and> fst (get_fields later_searcher example_cache ''r1'' (Some 9)) =
       Inr (example_mapping, [id_field, string_field ''name''])
   \<and> fst (snd (get_fields later_searcher example_cache ''r1'' (Some 9))) = example_cache"
proof -
  have same: "resolved_version later_searcher ''r1'' (Some 9) =
      resolved_version example_searcher ''r1'' None"
    by (simp add: later_version example_version)
  have second: "get_fields later_searcher example_cache ''r1'' (Some 9) =
      (fst (get_fields later_searcher example_cache ''r1'' (Some 9)),
       fst (snd (get_fields later_searcher example_cache ''r1'' (Some 9))),
       snd (snd (get_fields later_searcher example_cache ''r1'' (Some 9))))"
    by simp
  from get_fields_cache_stable [OF example_run second same] example_version
  have "fst (get_fields later_searcher example_cache ''r1'' (Some 9)) =
       Inr (example_mapping, [id_field, string_field ''name''])
     \<and> fst (snd (get_fields later_searcher example_cache ''r1'' (Some 9))) = example_cache"
    by blast
  with example_run same show ?thesis by simp
qed

text \<open>
  Claim C5. When the rounded version of the resource resolves to None, the call returns
  the raw mapping the backend gives with the field list \<open>[_id]\<close>, and the cache
  after the call is the cache before it. (The cache is one that get_fields has filled.)
\<close>

theorem get_fields_without_version:
  assumes "reachable_cache c"
    and "resolved_version s resource_id version = Some None"
    and "get_mapping s (prefix_resource s resource_id) (prefix_resource s resource_id) =
           Some mapping"
  shows "get_fields s c resource_id version =
     (Inr (mapping, [id_field]), c,
      [GetRoundedVersions [prefix_resource s resource_id] version,
       GetMapping (prefix_resource s resource_id)])"
proof -
  from assms(1) have "c (resource_id, None) = None" by (rule reachable_no_unversioned_entry)
  with assms(2) show ?thesis using assms(3) by (rule get_fields_no_version)
qed

theorem get_fields_without_version_witness:
  "reachable_cache example_cache
   \<and> resolved_version unversioned_searcher ''r1'' None = Some None
   \<and> get_mapping unversioned_searcher ''nhm-r1'' ''nhm-r1'' = Some example_mapping
   \<and> get_fields unversioned_searcher example_cache ''r1'' None =
       (Inr (example_mapping, [id_field]), example_cache,
        [GetRoundedVersions [''nhm-r1''] None, GetMapping ''nhm-r1''])"
  using get_fields_without_version [of example_cache unversioned_searcher "''r1''" None
      example_mapping]
  by (simp add: example_cache_reachable unversioned_version unversioned_index
      unversioned_get_mapping)

text \<open>
  Claim C10. In every list of fields get_fields returns, the first element is
  \<open>{id: _id, type: integer}\<close>, exactly one element has the id \<open>_id\<close>, every
  element other than that one has the type \<open>string\<close>, and no existence search of
  the call asks for \<open>data._id\<close>.
\<close>

theorem get_fields_id_first:
  assumes "reachable_cache c"
    and "get_fields s c resource_id version = (Inr (mapping, field_list), c', calls)"
  shows "field_list \<noteq> [] \<and> hd field_list = id_field
    \<and> length (filter (\<lambda>f. field_id f = ''_id'') field_list) = 1
    \<and> (\<forall>f\<in>set field_list. field_type f \<noteq> ''string'' \<longrightarrow> f = id_field)
    \<and> field_type id_field \<noteq> ''string''
    \<and> (\<forall>index searches q. MultiSearchExecute index searches \<in> set calls \<longrightarrow>
          q \<in> set searches \<longrightarrow> exists_field q \<noteq> prefix_field ''_id'')"
proof -
  from assms(1) have ok: "cache_ok c" by (rule reachable_cache_ok)
  from ok assms(2) have "listed_fields field_list" by (rule get_fields_result_listed)
  then have shape: "field_list \<noteq> [] \<and> hd field_list = id_field
    \<and> length (filter (\<lambda>f. field_id f = ''_id'') field_list) = 1
    \<and> (\<forall>f\<in>set field_list. field_type f \<noteq> ''string'' \<longrightarrow> f = id_field)"
    by (rule listed_fields_shape)
  have "exists_field q \<noteq> prefix_field ''_id''"
    if call: "MultiSearchExecute index searches \<in> set calls" and q: "q \<in> set searches"
    for index searches q
  proof (cases rule: get_fields_paths [where s = s and rid = resource_id and v = version and c = c])
    case key_error
    from get_fields_key_error [OF key_error, of c] assms(2) show ?thesis by simp
  next
    case (hit rvo cached)
    from get_fields_hit [where c = c, OF hit] assms(2) call show ?thesis by auto
  next
    case (no_mapping rvo)
    from get_fields_no_mapping [where c = c, OF no_mapping] assms(2) show ?thesis by simp
  next
    case (no_version m)
    from get_fields_no_version [where c = c, OF no_version] assms(2) call show ?thesis by auto
  next
    case (bad_mapping rv m e)
    from get_fields_bad_mapping [where c = c, OF bad_mapping] assms(2) show ?thesis by simp
  next
    case (no_id rv m sorted_names)
    from get_fields_no_id [where c = c, OF no_id] assms(2) show ?thesis by simp
  next
    case (miss rv m sorted_names)
    from miss(4) have "distinct sorted_names" by (rule data_field_names_distinct)
    then have "''_id'' \<notin> set (remove1 ''_id'' sorted_names)" by simp
    with get_fields_miss [where c = c, OF miss] assms(2) call q show ?thesis
      by (auto simp: exists_at_def prefix_field_def)
  qed
  with shape show ?thesis by (simp add: id_field_def)
qed

theorem get_fields_id_first_witness:
  "reachable_cache example_cache
   \<and> get_fields later_searcher example_cache ''r1'' (Some 9) =
       (Inr (example_mapping, [id_field, string_field ''name'']), example_cache,
        [GetRoundedVersions [''nhm-r1''] (Some 9)])
   \<and> hd [id_field, string_field ''name''] = id_field
   \<and> length (filter (\<lambda>f. field_id f = ''_id'') [id_field, string_field ''name'']) = 1"
proof -
  have run: "get_fields later_searcher example_cache ''r1'' (Some 9) =
       (Inr (example_mapping, [id_field, string_field ''name'']), example_cache,
        [GetRoundedVersions [''nhm-r1''] (Some 9)])"
    using get_fields_hit [where c = example_cache, OF later_version]
    by (simp add: example_cache_def later_index)
  from get_fields_id_first [OF example_cache_reachable run] run example_cache_reachable
  show ?thesis by simp
qed

text \<open>
  Claim C4 as it is written asks for one existence search per declared data field, and
  for a field to be listed exactly when its search has a hit. The declared field
  \<open>_id\<close> has no search and is listed all the same: here three fields are declared
  and two searches run.
\<close>

theorem get_fields_existence_checks_counterexample:
  "data_field_names example_searcher example_mapping = Inr [''_id'', ''age'', ''name'']
   \<and> get_fields example_searcher Map.empty ''r1'' None =
       (Inr (example_mapping, [id_field, string_field ''name'']), example_cache,
        [GetRoundedVersions [''nhm-r1''] None, GetMapping ''nhm-r1'',
         MultiSearchExecute ''nhm-r1'' [exists_at ''age'' 7, exists_at ''name'' 7]])
   \<and> exists_at ''_id'' 7 \<notin> set [exists_at ''age'' 7, exists_at ''name'' 7]
   \<and> length [exists_at ''age'' 7, exists_at ''name'' 7] \<noteq> length [''_id'', ''age'', ''name'']"
  using example_names example_run by (simp add: exists_at_def prefix_field_def)

text \<open>
  Claim C4, amended. On a cache miss with a rounded version \<open>rv\<close> and a mapping that
  declares \<open>_id\<close>, get_fields runs one multi-search with one existence search, at
  \<open>rv\<close>, for each declared data field other than \<open>_id\<close>; the fields returned
  after \<open>_id\<close> are those of them whose search has at least one hit, each with the
  type \<open>string\<close>; and the result is stored under (resource_id, rv).
\<close>

theorem get_fields_existence_checks:
  fixes s :: searcher
  defines "index \<equiv> \<lambda>resource_id. prefix_resource s resource_id"
  assumes version: "resolved_version s resource_id version = Some (Some rv)"
    and absent: "c (resource_id, Some rv) = None"
    and mapping: "get_mapping s (index resource_id) (index resource_id) = Some mapping"
    and declared: "data_field_names s mapping = Inr declared"
    and id: "''_id'' \<in> set declared"
  shows "\<exists>checked kept.
      get_fields s c resource_id version =
        (Inr (mapping, id_field # map string_field kept),
         c((resource_id, Some rv) \<mapsto> (mapping, id_field # map string_field kept)),
         [GetRoundedVersions [index resource_id] version, GetMapping (index resource_id),
          MultiSearchExecute (index resource_id) (map (\<lambda>name. exists_at name rv) checked)])
    \<and> distinct checked \<and> set checked = set declared - {''_id''}
    \<and> set kept = {name \<in> set checked.
                     0 < hits_total s (index resource_id) (exists_at name rv)}"
proof -
  let ?checked = "remove1 ''_id'' declared"
  let ?kept = "filter (\<lambda>name. 0 < hits_total s (index resource_id) (exists_at name rv)) ?checked"
  from declared have d: "distinct declared" by (rule data_field_names_distinct)
  have "get_fields s c resource_id version =
        (Inr (mapping, id_field # map string_field ?kept),
         c((resource_id, Some rv) \<mapsto> (mapping, id_field # map string_field ?kept)),
         [GetRoundedVersions [index resource_id] version, GetMapping (index resource_id),
          MultiSearchExecute (index resource_id) (map (\<lambda>name. exists_at name rv) ?checked)])"
    using get_fields_miss [where c = c, OF version absent mapping [unfolded index_def] declared id]
    by (simp add: index_def existing_fields_filter)
  moreover have "distinct ?checked" using d by simp
  moreover have "set ?checked = set declared - {''_id''}" using d by simp
  moreover have "set ?kept = {name \<in> set ?checked.
      0 < hits_total s (index resource_id) (exists_at name rv)}" by simp
  ultimately show ?thesis by blast
qed

theorem get_fields_existence_checks_witness:
  "resolved_version example_searcher ''r1'' None = Some (Some 7)
   \<and> get_mapping example_searcher ''nhm-r1'' ''nhm-r1'' = Some example_mapping
   \<and> data_field_names example_searcher example_mapping = Inr [''_id'', ''age'', ''name'']
   \<and> (\<exists>checked kept.
        get_fields example_searcher Map.empty ''r1'' None =
          (Inr (example_mapping, id_field # map string_field kept),
           [(''r1'', Some 7) \<mapsto> (example_mapping, id_field # map string_field kept)],
           [GetRoundedVersions [''nhm-r1''] None, GetMapping ''nhm-r1'',
            MultiSearchExecute ''nhm-r1'' (map (\<lambda>name. exists_at name 7) checked)])
      \<and> distinct checked \<and> set checked = {''age'', ''name''}
      \<and> set kept = {name \<in> set checked.
                       0 < hits_total example_searcher ''nhm-r1'' (exists_at name 7)})"
proof -
  have "set [''_id'', ''age'', ''name''] - {''_id''} = {''age'', ''name''}" by auto
  with get_fields_existence_checks [where s = example_searcher and c = Map.empty
      and resource_id = "''r1''" and version = None and rv = 7 and mapping = example_mapping
      and declared = "[''_id'', ''age'', ''name'']"]
  show ?thesis
    by (simp add: example_version example_index example_get_mapping example_names)
qed

section \<open>Properties of datastore_multisearch\<close>

subsection \<open>The paths through the action\<close>

lemma multisearch_invalid:
  "validate_query env (default_query query) (default_query_version env query_version) =
     Some message \<Longrightarrow>
   datastore_multisearch env ctx query query_version version resource_ids
     resource_ids_and_versions size' after top_resources timings =
     (Inl (ValidationError message), [])"
  by (simp add: datastore_multisearch_def Let_def)

lemma multisearch_untranslated:
  "validate_query env (default_query query) (default_query_version env query_version) = None \<Longrightarrow>
   translate_query env (default_query query) (default_query_version env query_version) =
     Inl message \<Longrightarrow>
   datastore_multisearch env ctx query query_version version resource_ids
     resource_ids_and_versions size' after top_resources timings =
     (Inl (ValidationError message), [])"
  by (simp add: datastore_multisearch_def Let_def)

lemma multisearch_no_resources:
  "validate_query env (default_query query) (default_query_version env query_version) = None \<Longrightarrow>
   translate_query env (default_query query) (default_query_version env query_version) =
     Inr search \<Longrightarrow>
   determine_resources_to_search env ctx resource_ids resource_ids_and_versions =
     ([], skipped) \<Longrightarrow>
   datastore_multisearch env ctx query query_version version resource_ids
     resource_ids_and_versions size' after top_resources timings =
     (Inl (ValidationError no_resources_message), [])"
  by (simp add: datastore_multisearch_def Let_def)

lemma multisearch_searches:
  "validate_query env (default_query query) (default_query_version env query_version) = None \<Longrightarrow>
   translate_query env (default_query query) (default_query_version env query_version) =
     Inr search \<Longrightarrow>
   determine_resources_to_search env ctx resource_ids resource_ids_and_versions =
     (allowed, skipped) \<Longrightarrow>
   allowed \<noteq> [] \<Longrightarrow>
   datastore_multisearch env ctx query query_version version resource_ids
     resource_ids_and_versions size' after top_resources timings =
     (let issued = multisearch_search env search version allowed resource_ids_and_versions
                     (max 0 (min size' 1000)) after top_resources
      in case execute env issued of
           Inl failure \<Rightarrow> (Inl (BackendFailure failure), [Executed issued])
         | Inr result \<Rightarrow>
             (case calculate_after result (max 0 (min size' 1000)) of
                (hits, next_after) \<Rightarrow>
                  (Inr (multisearch_finish env timings
                          (multisearch_response env result hits next_after skipped
                             top_resources)),
                   [Executed issued, Logged (default_query query) ''multisearch''])))"
  by (simp add: datastore_multisearch_def Let_def)

lemma multisearch_search_fields:
  "search_sort (multisearch_search env search version allowed versions n after top_resources) =
     multisearch_sort"
  "search_size (multisearch_search env search version allowed versions n after top_resources) =
     Some (n + 1)"
  by (simp_all add: multisearch_search_def Let_def split: option.split)

text \<open>Whatever the action executes is the search built from the clamped size.\<close>

lemma multisearch_executed:
  assumes "datastore_multisearch env ctx query query_version version resource_ids
     resource_ids_and_versions size' after top_resources timings = (outcome, effects)"
    and "Executed issued \<in> set effects"
  shows "\<exists>search allowed.
     issued = multisearch_search env search version allowed resource_ids_and_versions
                (max 0 (min size' 1000)) after top_resources"
proof (cases "validate_query env (default_query query) (default_query_version env query_version)")
  case (Some message)
  from multisearch_invalid [OF Some] assms show ?thesis by simp
next
  case None
  note valid = None
  show ?thesis
  proof (cases "translate_query env (default_query query)
      (default_query_version env query_version)")
    case (Inl message)
    from multisearch_untranslated [OF valid Inl] assms show ?thesis by simp
  next
    case (Inr search)
    obtain allowed skipped where
      res: "determine_resources_to_search env ctx resource_ids resource_ids_and_versions =
        (allowed, skipped)" by (cases "determine_resources_to_search env ctx resource_ids
          resource_ids_and_versions")
    show ?thesis
    proof (cases "allowed = []")
      case True
      from multisearch_no_resources [OF valid Inr res [unfolded True]] assms show ?thesis by simp
    next
      case False
      from multisearch_searches [OF valid Inr res False, of version size' after top_resources
          timings] assms
      have "issued = multisearch_search env search version allowed resource_ids_and_versions
                (max 0 (min size' 1000)) after top_resources"
        by (auto simp: Let_def split: sum.splits prod.splits)
      then show ?thesis by blast
    qed
  qed
qed

subsection \<open>The order of a sort\<close>

lemma sort_value_less_irrefl: "\<not> sort_value_less a a"
  by (cases a) simp_all

lemma sort_value_less_trans:
  "sort_value_less a b \<Longrightarrow> sort_value_less b c \<Longrightarrow> sort_value_less a c"
  by (cases a; cases b; cases c) simp_all

lemma sort_value_less_total:
  "a \<noteq> SNull \<Longrightarrow> b \<noteq> SNull \<Longrightarrow> a \<noteq> b \<Longrightarrow> sort_value_less a b \<or> sort_value_less b a"
  by (cases a; cases b) auto

lemma sort_value_less_asym: "sort_value_less a b \<Longrightarrow> \<not> sort_value_less b a"
  by (cases a; cases b) auto

lemma sort_value_less_null: "\<not> sort_value_less SNull b" "\<not> sort_value_less a SNull"
proof -
  show "\<not> sort_value_less SNull b" by simp
  show "\<not> sort_value_less a SNull" by (cases a) simp_all
qed

lemma key_before_irrefl: "\<not> key_before k a a"
  by (simp add: key_before_def sort_value_less_irrefl)

lemma key_before_asym: "key_before k a b \<Longrightarrow> \<not> key_before k b a"
  by (auto simp: key_before_def dest: sort_value_less_asym split: if_splits)

lemma key_before_total: "a \<noteq> b \<Longrightarrow> key_before k a b \<or> key_before k b a"
  using sort_value_less_total [of a b] sort_value_less_total [of b a]
  by (auto simp: key_before_def)

lemma key_before_trans: "key_before k a b \<Longrightarrow> key_before k b c \<Longrightarrow> key_before k a c"
  by (auto simp: key_before_def sort_value_less_null dest: sort_value_less_trans
      split: if_splits)

lemma precedes_irrefl: "\<not> precedes ks as as"
proof (induction ks arbitrary: as)
  case Nil
  show ?case by simp
next
  case (Cons k ks)
  then show ?case by (cases as) (simp_all add: key_before_irrefl)
qed

lemma precedes_asym: "precedes ks as bs \<Longrightarrow> \<not> precedes ks bs as"
  by (induction ks as bs rule: precedes.induct)
     (auto simp: key_before_irrefl dest: key_before_asym)

lemma precedes_total:
  "length as = length ks \<Longrightarrow> length bs = length ks \<Longrightarrow> as \<noteq> bs \<Longrightarrow>
   precedes ks as bs \<or> precedes ks bs as"
proof (induction ks arbitrary: as bs)
  case Nil
  then show ?case by simp
next
  case (Cons k ks)
  from Cons.prems obtain a as' b bs' where eq: "as = a # as'" "bs = b # bs'"
    by (cases as; cases bs) auto
  show ?case
  proof (cases "a = b")
    case True
    with Cons.prems eq have "precedes ks as' bs' \<or> precedes ks bs' as'"
      by (intro Cons.IH) auto
    with True eq show ?thesis by auto
  next
    case False
    then have "key_before k a b \<or> key_before k b a" by (rule key_before_total)
    with eq show ?thesis by auto
  qed
qed

lemma precedes_trans:
  "precedes ks as bs \<Longrightarrow> precedes ks bs cs \<Longrightarrow> precedes ks as cs"
proof (induction ks arbitrary: as bs cs)
  case Nil
  then show ?case by simp
next
  case (Cons k ks)
  from Cons.prems obtain a as' b bs' c cs' where
    eq: "as = a # as'" "bs = b # bs'" "cs = c # cs'"
    by (cases as; cases bs; cases cs) auto
  with Cons.prems have ab: "key_before k a b \<or> (a = b \<and> precedes ks as' bs')"
    and bc: "key_before k b c \<or> (b = c \<and> precedes ks bs' cs')" by auto
  from ab bc have "key_before k a c \<or> (a = c \<and> precedes ks as' cs')"
    by (auto dest: key_before_trans Cons.IH)
  with eq show ?case by simp
qed

lemma multisearch_sort_values:
  "map (sort_value_of d) multisearch_sort =
     [case doc_modified d of None \<Rightarrow> SNull | Some m \<Rightarrow> SNum m, SNum (doc_id d),
      SStr (doc_index d)]"
  by (simp add: multisearch_sort_def sort_value_of_def)

lemma multisearch_sort_strict_total:
  "\<not> sorts_before multisearch_sort d d"
  "sorts_before multisearch_sort d1 d2 \<Longrightarrow> \<not> sorts_before multisearch_sort d2 d1"
  "sorts_before multisearch_sort d1 d2 \<Longrightarrow> sorts_before multisearch_sort d2 d3 \<Longrightarrow>
     sorts_before multisearch_sort d1 d3"
  "doc_id d1 \<noteq> doc_id d2 \<or> doc_index d1 \<noteq> doc_index d2 \<Longrightarrow>
     sorts_before multisearch_sort d1 d2 \<or> sorts_before multisearch_sort d2 d1"
proof -
  show "\<not> sorts_before multisearch_sort d d"
    by (simp add: sorts_before_def precedes_irrefl)
  show "sorts_before multisearch_sort d1 d2 \<Longrightarrow> \<not> sorts_before multisearch_sort d2 d1"
    unfolding sorts_before_def by (rule precedes_asym)
  show "sorts_before multisearch_sort d1 d2 \<Longrightarrow> sorts_before multisearch_sort d2 d3 \<Longrightarrow>
     sorts_before multisearch_sort d1 d3"
    unfolding sorts_before_def by (rule precedes_trans)
  assume "doc_id d1 \<noteq> doc_id d2 \<or> doc_index d1 \<noteq> doc_index d2"
  then have "map (sort_value_of d1) multisearch_sort \<noteq> map (sort_value_of d2) multisearch_sort"
    unfolding multisearch_sort_values by auto
  then show "sorts_before multisearch_sort d1 d2 \<or> sorts_before multisearch_sort d2 d1"
    unfolding sorts_before_def by (intro precedes_total) simp_all
qed

subsection \<open>The response and what the plugins get\<close>

lemma multisearch_response_fields:
  "response_after (multisearch_response env result hits next_after skipped top_resources) =
     next_after"
  "response_records (multisearch_response env result hits next_after skipped top_resources) =
     map (\<lambda>hit. \<lparr>record_data = hit_data hit,
                  record_resource = trim_index_name env (hit_index hit)\<rparr>) hits"
  "response_total (multisearch_response env result hits next_after skipped top_resources) =
     result_total result"
  "response_skipped_resources
     (multisearch_response env result hits next_after skipped top_resources) = skipped"
  by (simp_all add: multisearch_response_def Let_def)

lemma multisearch_finish_no_plugins:
  "multisearch_plugins env = [] \<Longrightarrow>
   response_after (multisearch_finish env timings response) = response_after response
   \<and> response_records (multisearch_finish env timings response) = response_records response"
  by (simp add: multisearch_finish_def Let_def)

lemma calculate_after_more:
  "int (length (result_hits result)) = n + 1 \<Longrightarrow> 0 < n \<Longrightarrow>
   butlast (result_hits result) \<noteq> []
   \<and> calculate_after result n =
       (butlast (result_hits result), Some (hit_sort (last (butlast (result_hits result)))))"
proof -
  assume len: "int (length (result_hits result)) = n + 1" and pos: "0 < n"
  then have "2 \<le> length (result_hits result)" by linarith
  then have "butlast (result_hits result) \<noteq> []"
    by (cases "result_hits result" rule: rev_cases) auto
  with len show ?thesis by (simp add: calculate_after_def Let_def)
qed

lemma calculate_after_none_kept:
  "int (length (result_hits result)) = n + 1 \<Longrightarrow> n \<le> 0 \<Longrightarrow>
   calculate_after result n = ([], None)"
proof -
  assume len: "int (length (result_hits result)) = n + 1" and "n \<le> 0"
  then have "length (result_hits result) \<le> 1" by linarith
  then have "butlast (result_hits result) = []"
    by (cases "result_hits result") auto
  with len show ?thesis by (simp add: calculate_after_def Let_def)
qed

lemma calculate_after_last:
  "int (length (result_hits result)) \<noteq> n + 1 \<Longrightarrow>
   calculate_after result n = (result_hits result, None)"
  by (simp add: calculate_after_def)

subsection \<open>The example environment\<close>

lemma example_defaults:
  "default_query None = JDict []"
  "default_query_version example_environment None = ''v1.0.0''"
  "default_query_version plugin_environment None = ''v1.0.0''"
  by (simp_all add: default_query_def default_query_version_def example_environment_def
      plugin_environment_def)

lemma example_valid:
  "validate_query example_environment q v = None"
  "translate_query example_environment q v = Inr translated"
  "validate_query plugin_environment q v = None"
  "translate_query plugin_environment q v = Inr translated"
  by (simp_all add: example_environment_def plugin_environment_def)

lemma example_resources:
  "determine_resources_to_search example_environment () None versions = ([''r1'', ''r2''], [])"
  "determine_resources_to_search plugin_environment () None versions = ([''r1'', ''r2''], [])"
  "determine_resources_to_search example_environment () (Some ids) versions = (ids, [])"
  by (simp_all add: example_environment_def plugin_environment_def)

lemma example_execute:
  "execute example_environment search = Inr example_result"
  "execute plugin_environment search = Inr example_result"
  by (simp_all add: example_environment_def plugin_environment_def)

lemma example_hits: "int (length (result_hits example_result)) = 1 + 1"
  by (simp add: example_result_def)

lemma example_calculate_after:
  "calculate_after example_result 1 = ([first_hit], Some [SNum 1500, SNum 4, SStr ''nhm-r2''])"
  by (simp add: calculate_after_def example_result_def first_hit_def)

lemma example_multisearch:
  "datastore_multisearch example_environment () None None None None None 1 None False False =
     (Inr \<lparr>response_total = 5,
           response_after = Some [SNum 1500, SNum 4, SStr ''nhm-r2''],
           response_records =
             [\<lparr>record_data = JDict [(''_id'', JInt 4), (''modified'', JInt 1500)],
               record_resource = ''r2''\<rparr>],
           response_skipped_resources = [],
           response_top_resources = None,
           response_timings = None\<rparr>,
      [Executed (multisearch_search example_environment translated None [''r1'', ''r2''] None 1
                   None False),
       Logged (JDict []) ''multisearch''])"
proof -
  have "datastore_multisearch example_environment () None None None None None 1 None False False =
     (Inr (multisearch_finish example_environment False
             (multisearch_response example_environment example_result [first_hit]
                (Some [SNum 1500, SNum 4, SStr ''nhm-r2'']) [] False)),
      [Executed (multisearch_search example_environment translated None [''r1'', ''r2''] None 1
                   None False),
       Logged (JDict []) ''multisearch''])"
    using multisearch_searches [where env = example_environment and ctx = "()"
        and query = None and query_version = None and resource_ids = None
        and resource_ids_and_versions = None and search = translated
        and allowed = "[''r1'', ''r2'']" and skipped = "[]" and size' = 1 and version = None
        and after = None and top_resources = False and timings = False]
    by (simp add: example_valid example_resources example_execute example_calculate_after
        example_defaults)
  then show ?thesis
    by (simp add: multisearch_finish_def multisearch_response_def Let_def first_hit_def
        example_result_def example_environment_def)
qed

lemma plugin_multisearch:
  "datastore_multisearch plugin_environment () None None None None None 1 None False False =
     (Inr \<lparr>response_total = 5,
           response_after = None,
           response_records =
             [\<lparr>record_data = JDict [(''_id'', JInt 4), (''modified'', JInt 1500)],
               record_resource = ''r2''\<rparr>],
           response_skipped_resources = [],
           response_top_resources = None,
           response_timings = None\<rparr>,
      [Executed (multisearch_search plugin_environment translated None [''r1'', ''r2''] None 1
                   None False),
       Logged (JDict []) ''multisearch''])"
proof -
  have "datastore_multisearch plugin_environment () None None None None None 1 None False False =
     (Inr (multisearch_finish plugin_environment False
             (multisearch_response plugin_environment example_result [first_hit]
                (Some [SNum 1500, SNum 4, SStr ''nhm-r2'']) [] False)),
      [Executed (multisearch_search plugin_environment translated None [''r1'', ''r2''] None 1
                   None False),
       Logged (JDict []) ''multisearch''])"
    using multisearch_searches [where env = plugin_environment and ctx = "()"
        and query = None and query_version = None and resource_ids = None
        and resource_ids_and_versions = None and search = translated
        and allowed = "[''r1'', ''r2'']" and skipped = "[]" and size' = 1 and version = None
        and after = None and top_resources = False and timings = False]
    by (simp add: example_valid example_resources example_execute example_calculate_after
        example_defaults)
  then show ?thesis
    by (simp add: multisearch_finish_def multisearch_response_def Let_def first_hit_def
        example_result_def plugin_environment_def example_environment_def)
qed

section \<open>Properties of datastore_guess_fields\<close>

lemma guess_fields_invalid:
  "validate_query env (default_query query) (default_query_version env query_version) =
     Some message \<Longrightarrow>
   datastore_guess_fields env ctx query query_version version resource_ids
     resource_ids_and_versions size' ignore_groups = (Inl (ValidationError message), [])"
  by (simp add: datastore_guess_fields_def Let_def)

lemma guess_fields_untranslated:
  "validate_query env (default_query query) (default_query_version env query_version) = None \<Longrightarrow>
   translate_query env (default_query query) (default_query_version env query_version) =
     Inl message \<Longrightarrow>
   datastore_guess_fields env ctx query query_version version resource_ids
     resource_ids_and_versions size' ignore_groups = (Inl (ValidationError message), [])"
  by (simp add: datastore_guess_fields_def Let_def)

lemma guess_fields_no_resources:
  "validate_query env (default_query query) (default_query_version env query_version) = None \<Longrightarrow>
   translate_query env (default_query query) (default_query_version env query_version) =
     Inr search \<Longrightarrow>
   determine_resources_to_search env ctx resource_ids resource_ids_and_versions =
     ([], skipped) \<Longrightarrow>
   datastore_guess_fields env ctx query query_version version resource_ids
     resource_ids_and_versions size' ignore_groups =
     (Inl (ValidationError no_resources_message), [])"
  by (simp add: datastore_guess_fields_def Let_def)

lemma guess_fields_single:
  assumes "validate_query env (default_query query) (default_query_version env query_version) =
      None"
    and "translate_query env (default_query query) (default_query_version env query_version) =
      Inr search"
    and "determine_resources_to_search env ctx resource_ids resource_ids_and_versions =
      (allowed, skipped)"
    and "allowed \<noteq> []"
    and "find_searched_resources env
       (guess_fields_search env search (default_version env version) allowed
          resource_ids_and_versions) allowed = [resource_id]"
  shows "datastore_guess_fields env ctx query query_version version resource_ids
     resource_ids_and_versions size' ignore_groups =
     (let searched = guess_fields_search env search (default_version env version) allowed
                       resource_ids_and_versions;
          all_fields = guess_fields_all_fields env [resource_id] ignore_groups;
          found = [Handed ''find_searched_resources'' searched]
      in case resource_ids_and_versions of
           None \<Rightarrow>
             (Inr (get_single_resource_fields env all_fields resource_id
                     (default_version env version) searched size'),
              found @ [Handed ''get_single_resource_fields'' searched])
         | Some versions \<Rightarrow>
             (case versions resource_id of
                None \<Rightarrow> (Inl KeyError, found)
              | Some up_to_version \<Rightarrow>
                  (Inr (get_single_resource_fields env all_fields resource_id up_to_version
                          searched size'),
                   found @ [Handed ''get_single_resource_fields'' searched])))"
  using assms
  by (cases resource_ids_and_versions)
     (auto simp: datastore_guess_fields_def Let_def split: option.splits)

lemma guess_fields_several:
  assumes "validate_query env (default_query query) (default_query_version env query_version) =
      None"
    and "translate_query env (default_query query) (default_query_version env query_version) =
      Inr search"
    and "determine_resources_to_search env ctx resource_ids resource_ids_and_versions =
      (allowed, skipped)"
    and "allowed \<noteq> []"
    and "length (find_searched_resources env
       (guess_fields_search env search (default_version env version) allowed
          resource_ids_and_versions) allowed) \<noteq> 1"
  shows "datastore_guess_fields env ctx query query_version version resource_ids
     resource_ids_and_versions size' ignore_groups =
     (let searched = guess_fields_search env search (default_version env version) allowed
                       resource_ids_and_versions;
          all_fields = guess_fields_all_fields env
                         (find_searched_resources env searched allowed) ignore_groups
      in (Inr (select_fields env all_fields searched (max 0 (min size' 25))),
          [Handed ''find_searched_resources'' searched, Handed ''select_fields'' searched]))"
  using assms by (auto simp: datastore_guess_fields_def Let_def split: list.splits)

subsection \<open>More runs of the example environment\<close>

lemma example_calculate_after_large:
  "calculate_after example_result 1000 = ([first_hit, second_hit], None)"
  by (simp add: calculate_after_def example_result_def)

lemma example_multisearch_large:
  "snd (datastore_multisearch example_environment () None None None None None 5000 None False
          False) =
     [Executed (multisearch_search example_environment translated None [''r1'', ''r2''] None 1000
                  None False),
      Logged (JDict []) ''multisearch'']"
  using multisearch_searches [where env = example_environment and ctx = "()"
      and query = None and query_version = None and resource_ids = None
      and resource_ids_and_versions = None and search = translated
      and allowed = "[''r1'', ''r2'']" and skipped = "[]" and size' = 5000 and version = None
      and after = None and top_resources = False and timings = False]
  by (simp add: example_valid example_resources example_execute example_calculate_after_large
      example_defaults)

lemma single_environment_facts:
  "default_query_version single_environment None = ''v1.0.0''"
  "validate_query single_environment q v = None"
  "translate_query single_environment q v = Inr translated"
  "determine_resources_to_search single_environment () None versions = ([''r1'', ''r2''], [])"
  "execute single_environment search = Inr single_result"
  by (simp_all add: default_query_version_def single_environment_def example_environment_def)

lemma single_calculate_after: "calculate_after single_result 0 = ([], None)"
  by (simp add: calculate_after_def single_result_def)

lemma single_multisearch:
  "datastore_multisearch single_environment () None None None None None 0 None False False =
     (Inr \<lparr>response_total = 1,
           response_after = None,
           response_records = [],
           response_skipped_resources = [],
           response_top_resources = None,
           response_timings = None\<rparr>,
      [Executed (multisearch_search single_environment translated None [''r1'', ''r2''] None 0
                   None False),
       Logged (JDict []) ''multisearch''])"
proof -
  have "datastore_multisearch single_environment () None None None None None 0 None False False =
     (Inr (multisearch_finish single_environment False
             (multisearch_response single_environment single_result [] None [] False)),
      [Executed (multisearch_search single_environment translated None [''r1'', ''r2''] None 0
                   None False),
       Logged (JDict []) ''multisearch''])"
    using multisearch_searches [where env = single_environment and ctx = "()"
        and query = None and query_version = None and resource_ids = None
        and resource_ids_and_versions = None and search = translated
        and allowed = "[''r1'', ''r2'']" and skipped = "[]" and size' = 0 and version = None
        and after = None and top_resources = False and timings = False]
    by (simp add: single_environment_facts single_calculate_after example_defaults)
  then show ?thesis
    by (simp add: multisearch_finish_def multisearch_response_def Let_def single_result_def
        single_environment_def example_environment_def)
qed

lemma example_guess_helpers:
  "find_searched_resources example_environment search ids = ids"
  "select_fields example_environment all_fields search n = (''*'', 0, n)"
  "get_single_resource_fields example_environment all_fields resource_id up_to_version search n =
     (resource_id, up_to_version, n)"
  by (simp_all add: example_environment_def)


section \<open>The claims about the actions\<close>

text \<open>
  Claim C1 as it is written speaks of the cursor the action returns, and promises a
  non-null one whenever N+1 hits come back. A registered plugin may replace the
  response: in the first run the backend returns N+1 = 2 hits for page size 1, the extra
  hit is dropped, and the response that comes back has a null cursor. And with page
  size 0 no record is returned to build a cursor from: in the second run, with no
  plugin, the backend returns N+1 = 1 hit, the page is empty and the cursor null.
\<close>

theorem multisearch_pagination_counterexample:
  "execute plugin_environment
     (multisearch_search plugin_environment translated None [''r1'', ''r2''] None 1 None False) =
     Inr example_result
   \<and> int (length (result_hits example_result)) = max 0 (min 1 1000) + 1
   \<and> datastore_multisearch plugin_environment () None None None None None 1 None False False =
     (Inr \<lparr>response_total = 5,
           response_after = None,
           response_records =
             [\<lparr>record_data = JDict [(''_id'', JInt 4), (''modified'', JInt 1500)],
               record_resource = ''r2''\<rparr>],
           response_skipped_resources = [],
           response_top_resources = None,
           response_timings = None\<rparr>,
      [Executed (multisearch_search plugin_environment translated None [''r1'', ''r2''] None 1
                   None False),
       Logged (JDict []) ''multisearch''])
   \<and> multisearch_plugins single_environment = []
   \<and> execute single_environment
       (multisearch_search single_environment translated None [''r1'', ''r2''] None 0 None
          False) = Inr single_result
   \<and> int (length (result_hits single_result)) = max 0 (min 0 1000) + 1
   \<and> datastore_multisearch single_environment () None None None None None 0 None False False =
     (Inr \<lparr>response_total = 1,
           response_after = None,
           response_records = [],
           response_skipped_resources = [],
           response_top_resources = None,
           response_timings = None\<rparr>,
      [Executed (multisearch_search single_environment translated None [''r1'', ''r2''] None 0
                   None False),
       Logged (JDict []) ''multisearch''])"
proof -
  have "multisearch_plugins single_environment = []"
    by (simp add: single_environment_def example_environment_def)
  moreover have "int (length (result_hits single_result)) = max 0 (min 0 1000) + 1"
    by (simp add: single_result_def)
  ultimately show ?thesis
    using plugin_multisearch single_multisearch
    by (simp add: example_execute example_hits single_environment_facts)
qed

text \<open>
  Claim C1, amended. For every call that passes validation and resource resolution and
  whose search the backend answers, with page size N (the size clamped): the search is
  issued with size N+1. The response the action assembles holds, when N+1 hits came
  back, the hits without the last one, and as cursor the sort values of the last hit
  kept, which is there whenever N is at least 1; when no hit is kept (N = 0) the cursor
  is null. When another number of hits came back it holds all of them and a null
  cursor. The registered plugins are then applied to that response; with none
  registered, the returned response has that cursor and those records.
\<close>

theorem multisearch_pagination:
  assumes valid:
      "validate_query env (default_query query) (default_query_version env query_version) = None"
    and translated:
      "translate_query env (default_query query) (default_query_version env query_version) =
         Inr search"
    and resources:
      "determine_resources_to_search env ctx resource_ids resource_ids_and_versions =
         (allowed, skipped)"
    and accessible: "allowed \<noteq> []"
    and n: "n = max 0 (min size' 1000)"
    and issued:
      "issued = multisearch_search env search version allowed resource_ids_and_versions n after
         top_resources"
    and answered: "execute env issued = Inr result"
    and kept:
      "kept = (if int (length (result_hits result)) = n + 1 then butlast (result_hits result)
               else result_hits result)"
    and cursor:
      "cursor = (if int (length (result_hits result)) = n + 1 \<and> kept \<noteq> []
                 then Some (hit_sort (last kept)) else None)"
    and assembled:
      "assembled = multisearch_response env result kept cursor skipped top_resources"
  shows "search_size issued = Some (n + 1)
    \<and> calculate_after result n = (kept, cursor)
    \<and> datastore_multisearch env ctx query query_version version resource_ids
         resource_ids_and_versions size' after top_resources timings =
         (Inr (multisearch_finish env timings assembled),
          [Executed issued, Logged (default_query query) ''multisearch''])
    \<and> response_after assembled = cursor
    \<and> response_records assembled =
         map (\<lambda>hit. \<lparr>record_data = hit_data hit,
                      record_resource = trim_index_name env (hit_index hit)\<rparr>) kept
    \<and> (int (length (result_hits result)) = n + 1 \<and> 0 < n \<longrightarrow>
         kept \<noteq> [] \<and> cursor = Some (hit_sort (last kept)))
    \<and> (int (length (result_hits result)) = n + 1 \<and> n = 0 \<longrightarrow> kept = [] \<and> cursor = None)
    \<and> (multisearch_plugins env = [] \<longrightarrow>
         response_after (multisearch_finish env timings assembled) = cursor
         \<and> response_records (multisearch_finish env timings assembled) =
             response_records assembled)"
proof -
  have size: "search_size issued = Some (n + 1)"
    unfolding issued by (rule multisearch_search_fields)
  have range: "0 \<le> n" unfolding n by simp
  have more: "kept \<noteq> [] \<and> cursor = Some (hit_sort (last kept))"
    if "int (length (result_hits result)) = n + 1" "0 < n"
    using calculate_after_more [OF that] that(1) unfolding kept cursor by simp
  have none: "kept = [] \<and> cursor = None"
    if "int (length (result_hits result)) = n + 1" "n = 0"
  proof -
    from that have "calculate_after result n = ([], None)"
      by (intro calculate_after_none_kept) simp_all
    with that(1) show ?thesis
      unfolding kept cursor by (simp add: calculate_after_def Let_def split: if_splits)
  qed
  have after: "calculate_after result n = (kept, cursor)"
  proof (cases "int (length (result_hits result)) = n + 1")
    case True
    show ?thesis
    proof (cases "0 < n")
      case True
      with \<open>int (length (result_hits result)) = n + 1\<close> calculate_after_more [of result n] more
      show ?thesis unfolding kept by simp
    next
      case False
      with range have zero: "n = 0" by simp
      with True none have "kept = [] \<and> cursor = None" by simp
      moreover from True zero have "calculate_after result n = ([], None)"
        by (intro calculate_after_none_kept) simp_all
      ultimately show ?thesis by simp
    qed
  next
    case False
    then show ?thesis unfolding kept cursor by (simp add: calculate_after_last)
  qed
  have run: "datastore_multisearch env ctx query query_version version resource_ids
         resource_ids_and_versions size' after top_resources timings =
         (Inr (multisearch_finish env timings assembled),
          [Executed issued, Logged (default_query query) ''multisearch''])"
    using multisearch_searches [OF valid translated resources accessible, of version size' after
        top_resources timings] answered after
    by (simp add: n [symmetric] issued [symmetric] assembled)
  have fields: "response_after assembled = cursor"
    "response_records assembled =
         map (\<lambda>hit. \<lparr>record_data = hit_data hit,
                      record_resource = trim_index_name env (hit_index hit)\<rparr>) kept"
    unfolding assembled by (rule multisearch_response_fields)+
  from size after run fields more none multisearch_finish_no_plugins [of env timings assembled]
  show ?thesis by simp
qed

text \<open>Page size 1 and two hits, no plugin: the first hit and its sort values come back.\<close>

theorem multisearch_pagination_witness:
  "validate_query example_environment (default_query None)
     (default_query_version example_environment None) = None
   \<and> translate_query example_environment (default_query None)
       (default_query_version example_environment None) = Inr translated
   \<and> determine_resources_to_search example_environment () None None = ([''r1'', ''r2''], [])
   \<and> execute example_environment
       (multisearch_search example_environment translated None [''r1'', ''r2''] None 1 None
          False) = Inr example_result
   \<and> search_size (multisearch_search example_environment translated None [''r1'', ''r2''] None 1
        None False) = Some (1 + 1)
   \<and> datastore_multisearch example_environment () None None None None None 1 None False False =
       (Inr (multisearch_finish example_environment False
               (multisearch_response example_environment example_result [first_hit]
                  (Some [SNum 1500, SNum 4, SStr ''nhm-r2'']) [] False)),
        [Executed (multisearch_search example_environment translated None [''r1'', ''r2''] None
                     1 None False),
         Logged (default_query None) ''multisearch''])
   \<and> response_after (multisearch_finish example_environment False
        (multisearch_response example_environment example_result [first_hit]
           (Some [SNum 1500, SNum 4, SStr ''nhm-r2'']) [] False)) =
       Some [SNum 1500, SNum 4, SStr ''nhm-r2'']"
proof -
  have n: "(1::int) = max 0 (min 1 1000)" by simp
  have kept: "[first_hit] =
      (if int (length (result_hits example_result)) = 1 + 1
       then butlast (result_hits example_result) else result_hits example_result)"
    by (simp add: example_result_def)
  have cursor: "Some [SNum 1500, SNum 4, SStr ''nhm-r2''] =
      (if int (length (result_hits example_result)) = 1 + 1 \<and> [first_hit] \<noteq> []
       then Some (hit_sort (last [first_hit])) else None)"
    by (simp add: example_result_def first_hit_def)
  have plugins: "multisearch_plugins example_environment = []"
    by (simp add: example_environment_def)
  from multisearch_pagination [where env = example_environment and query = None
      and query_version = None and search = translated and ctx = "()" and resource_ids = None
      and resource_ids_and_versions = None and allowed = "[''r1'', ''r2'']" and skipped = "[]"
      and n = 1 and size' = 1 and version = None and after = None and top_resources = False
      and result = example_result and kept = "[first_hit]"
      and cursor = "Some [SNum 1500, SNum 4, SStr ''nhm-r2'']" and timings = False,
      OF example_valid(1) example_valid(2) example_resources(1) _ n refl example_execute(1)
        kept cursor refl]
    plugins
  show ?thesis
    by (simp add: example_valid example_resources example_execute)
qed

text \<open>
  Claim C2. Every search datastore_multisearch executes has exactly the sort
  (data.modified desc, data._id desc, _index desc), and the order this sort gives is a
  strict total order of the documents of all searched indexes: irreflexive, asymmetric
  and transitive, and of two documents that differ in record id or in index one comes
  first.
\<close>

theorem multisearch_sort_fixed:
  assumes run: "datastore_multisearch env ctx query query_version version resource_ids
      resource_ids_and_versions size' after top_resources timings = (outcome, effects)"
    and executed: "Executed issued \<in> set effects"
  shows "search_sort issued =
      [\<lparr>sort_field = ''data.modified'', sort_order = ''desc'', unmapped_type = Some ''date''\<rparr>,
       \<lparr>sort_field = ''data._id'', sort_order = ''desc'', unmapped_type = None\<rparr>,
       \<lparr>sort_field = ''_index'', sort_order = ''desc'', unmapped_type = None\<rparr>]
    \<and> (\<forall>d. \<not> sorts_before (search_sort issued) d d)
    \<and> (\<forall>d1 d2. sorts_before (search_sort issued) d1 d2 \<longrightarrow>
          \<not> sorts_before (search_sort issued) d2 d1)
    \<and> (\<forall>d1 d2 d3. sorts_before (search_sort issued) d1 d2 \<longrightarrow>
          sorts_before (search_sort issued) d2 d3 \<longrightarrow> sorts_before (search_sort issued) d1 d3)
    \<and> (\<forall>d1 d2. doc_id d1 \<noteq> doc_id d2 \<or> doc_index d1 \<noteq> doc_index d2 \<longrightarrow>
          sorts_before (search_sort issued) d1 d2 \<or> sorts_before (search_sort issued) d2 d1)"
proof -
  from multisearch_executed [OF run executed]
  have sort: "search_sort issued = multisearch_sort"
    by (auto simp: multisearch_search_fields)
  have "multisearch_sort =
      [\<lparr>sort_field = ''data.modified'', sort_order = ''desc'', unmapped_type = Some ''date''\<rparr>,
       \<lparr>sort_field = ''data._id'', sort_order = ''desc'', unmapped_type = None\<rparr>,
       \<lparr>sort_field = ''_index'', sort_order = ''desc'', unmapped_type = None\<rparr>]"
    by (simp add: multisearch_sort_def)
  moreover have "\<forall>d. \<not> sorts_before multisearch_sort d d"
    by (simp add: multisearch_sort_strict_total(1))
  moreover have "\<forall>d1 d2. sorts_before multisearch_sort d1 d2 \<longrightarrow>
      \<not> sorts_before multisearch_sort d2 d1"
    by (simp add: multisearch_sort_strict_total(2))
  moreover have "\<forall>d1 d2 d3. sorts_before multisearch_sort d1 d2 \<longrightarrow>
      sorts_before multisearch_sort d2 d3 \<longrightarrow> sorts_before multisearch_sort d1 d3"
    by (intro allI impI) (rule multisearch_sort_strict_total(3))
  moreover have "\<forall>d1 d2. doc_id d1 \<noteq> doc_id d2 \<or> doc_index d1 \<noteq> doc_index d2 \<longrightarrow>
      sorts_before multisearch_sort d1 d2 \<or> sorts_before multisearch_sort d2 d1"
    by (intro allI impI) (rule multisearch_sort_strict_total(4))
  ultimately show ?thesis unfolding sort by (intro conjI)
qed

text \<open>Two records with the same modified time and id in two resources are ordered.\<close>

theorem multisearch_sort_fixed_witness:
  "Executed (multisearch_search example_environment translated None [''r1'', ''r2''] None 1
      None False)
     \<in> set (snd (datastore_multisearch example_environment () None None None None None 1 None
                   False False))
   \<and> search_sort (multisearch_search example_environment translated None [''r1'', ''r2''] None
        1 None False) =
      [\<lparr>sort_field = ''data.modified'', sort_order = ''desc'', unmapped_type = Some ''date''\<rparr>,
       \<lparr>sort_field = ''data._id'', sort_order = ''desc'', unmapped_type = None\<rparr>,
       \<lparr>sort_field = ''_index'', sort_order = ''desc'', unmapped_type = None\<rparr>]
   \<and> (sorts_before
        (search_sort (multisearch_search example_environment translated None [''r1'', ''r2'']
           None 1 None False))
        \<lparr>doc_modified = Some 1500, doc_id = 4, doc_index = ''nhm-r1''\<rparr>
        \<lparr>doc_modified = Some 1500, doc_id = 4, doc_index = ''nhm-r2''\<rparr>
      \<or> sorts_before
        (search_sort (multisearch_search example_environment translated None [''r1'', ''r2'']
           None 1 None False))
        \<lparr>doc_modified = Some 1500, doc_id = 4, doc_index = ''nhm-r2''\<rparr>
        \<lparr>doc_modified = Some 1500, doc_id = 4, doc_index = ''nhm-r1''\<rparr>)"
proof -
  have executed: "Executed (multisearch_search example_environment translated None
      [''r1'', ''r2''] None 1 None False)
     \<in> set (snd (datastore_multisearch example_environment () None None None None None 1 None
                   False False))"
    by (simp add: example_multisearch)
  have run: "datastore_multisearch example_environment () None None None None None 1 None
      False False =
      (fst (datastore_multisearch example_environment () None None None None None 1 None
         False False),
       snd (datastore_multisearch example_environment () None None None None None 1 None
         False False))"
    by simp
  have differ: "doc_id \<lparr>doc_modified = Some 1500, doc_id = 4, doc_index = ''nhm-r1''\<rparr> \<noteq>
      doc_id \<lparr>doc_modified = Some 1500, doc_id = 4, doc_index = ''nhm-r2''\<rparr>
    \<or> doc_index \<lparr>doc_modified = Some 1500, doc_id = 4, doc_index = ''nhm-r1''\<rparr> \<noteq>
      doc_index \<lparr>doc_modified = Some 1500, doc_id = 4, doc_index = ''nhm-r2''\<rparr>"
    by simp
  from multisearch_sort_fixed [OF run executed] differ executed
  show ?thesis by blast
qed

text \<open>
  Claim C6. When one resource is left to search, datastore_guess_fields calls
  get_single_resource_fields with the version resource_ids_and_versions gives for that
  resource whenever the map is passed, whatever \<open>version\<close> is, and otherwise with
  \<open>version\<close>, or the clock's timestamp when \<open>version\<close> is None. (A map without
  the resource is a KeyError.)
\<close>

theorem guess_fields_single_resource_version:
  assumes valid:
      "validate_query env (default_query query) (default_query_version env query_version) = None"
    and translated:
      "translate_query env (default_query query) (default_query_version env query_version) =
         Inr search"
    and resources:
      "determine_resources_to_search env ctx resource_ids resource_ids_and_versions =
         (allowed, skipped)"
    and accessible: "allowed \<noteq> []"
    and searched:
      "searched = guess_fields_search env search (default_version env version) allowed
         resource_ids_and_versions"
    and single: "find_searched_resources env searched allowed = [resource_id]"
    and all_fields: "all_fields = guess_fields_all_fields env [resource_id] ignore_groups"
  shows "(resource_ids_and_versions = None \<longrightarrow>
        fst (datastore_guess_fields env ctx query query_version version resource_ids
               resource_ids_and_versions size' ignore_groups) =
          Inr (get_single_resource_fields env all_fields resource_id
                 (case version of None \<Rightarrow> now_timestamp env | Some v \<Rightarrow> v) searched size'))
    \<and> (\<forall>versions up_to_version.
          resource_ids_and_versions = Some versions \<longrightarrow>
          versions resource_id = Some up_to_version \<longrightarrow>
          fst (datastore_guess_fields env ctx query query_version version resource_ids
                 resource_ids_and_versions size' ignore_groups) =
            Inr (get_single_resource_fields env all_fields resource_id up_to_version searched
                   size'))
    \<and> (\<forall>versions.
          resource_ids_and_versions = Some versions \<longrightarrow> versions resource_id = None \<longrightarrow>
          fst (datastore_guess_fields env ctx query query_version version resource_ids
                 resource_ids_and_versions size' ignore_groups) = Inl KeyError)"
proof -
  note run = guess_fields_single [OF valid translated resources accessible
      single [unfolded searched], of size' ignore_groups]
  show ?thesis
  proof (cases resource_ids_and_versions)
    case None
    with run show ?thesis
      by (simp add: Let_def searched all_fields default_version_def)
  next
    case (Some versions)
    with run show ?thesis
      by (cases "versions resource_id")
         (simp_all add: Let_def searched all_fields default_version_def)
  qed
qed

text \<open>The map says 5 and \<open>version\<close> says 9: the fields are read at 5.\<close>

theorem guess_fields_single_resource_version_witness:
  "determine_resources_to_search example_environment () (Some [''r1'']) (Some [''r1'' \<mapsto> 5]) =
     ([''r1''], [])
   \<and> find_searched_resources example_environment
       (guess_fields_search example_environment translated
          (default_version example_environment (Some 9)) [''r1''] (Some [''r1'' \<mapsto> 5]))
       [''r1''] = [''r1'']
   \<and> fst (datastore_guess_fields example_environment () None None (Some 9) (Some [''r1''])
            (Some [''r1'' \<mapsto> 5]) 10 None) = Inr (''r1'', 5, 10)"
proof -
  have accessible: "[''r1''] \<noteq> []" by simp
  from guess_fields_single_resource_version [where env = example_environment and query = None
      and query_version = None and search = translated and ctx = "()"
      and resource_ids = "Some [''r1'']" and resource_ids_and_versions = "Some [''r1'' \<mapsto> 5]"
      and allowed = "[''r1'']" and skipped = "[]" and version = "Some 9"
      and resource_id = "''r1''" and size' = 10 and ignore_groups = None,
      OF example_valid(1) example_valid(2) example_resources(3) accessible refl
        example_guess_helpers(1) refl]
  show ?thesis
    by (simp add: example_resources example_guess_helpers)
qed

text \<open>
  Claim C7. Whatever size is passed, datastore_multisearch works with
  max(0, min(size, 1000)), which lies in [0, 1000] (the search it executes asks for one
  more), and the multi-resource path of datastore_guess_fields hands
  max(0, min(size, 25)), which lies in [0, 25], to select_fields.
\<close>

theorem size_clamped:
  "(\<forall>outcome effects issued.
      datastore_multisearch env ctx query query_version version resource_ids
        resource_ids_and_versions size' after top_resources timings = (outcome, effects) \<longrightarrow>
      Executed issued \<in> set effects \<longrightarrow>
      search_size issued = Some (max 0 (min size' 1000) + 1))
   \<and> 0 \<le> max 0 (min size' 1000) \<and> max 0 (min size' 1000) \<le> 1000
   \<and> (\<forall>search allowed skipped.
        validate_query env (default_query query) (default_query_version env query_version) =
          None \<longrightarrow>
        translate_query env (default_query query) (default_query_version env query_version) =
          Inr search \<longrightarrow>
        determine_resources_to_search env ctx resource_ids resource_ids_and_versions =
          (allowed, skipped) \<longrightarrow>
        allowed \<noteq> [] \<longrightarrow>
        length (find_searched_resources env
          (guess_fields_search env search (default_version env version) allowed
             resource_ids_and_versions) allowed) \<noteq> 1 \<longrightarrow>
        fst (datastore_guess_fields env ctx query query_version version resource_ids
               resource_ids_and_versions size' ignore_groups) =
          Inr (select_fields env
                 (guess_fields_all_fields env
                    (find_searched_resources env
                       (guess_fields_search env search (default_version env version) allowed
                          resource_ids_and_versions) allowed) ignore_groups)
                 (guess_fields_search env search (default_version env version) allowed
                    resource_ids_and_versions)
                 (max 0 (min size' 25))))
   \<and> 0 \<le> max 0 (min size' 25) \<and> max 0 (min size' 25) \<le> 25"
proof (intro conjI allI impI)
  fix outcome effects issued
  assume "datastore_multisearch env ctx query query_version version resource_ids
        resource_ids_and_versions size' after top_resources timings = (outcome, effects)"
    and "Executed issued \<in> set effects"
  then have "\<exists>search allowed.
     issued = multisearch_search env search version allowed resource_ids_and_versions
                (max 0 (min size' 1000)) after top_resources"
    by (rule multisearch_executed)
  then show "search_size issued = Some (max 0 (min size' 1000) + 1)"
    by (auto simp: multisearch_search_fields)
next
  fix search allowed skipped
  assume "validate_query env (default_query query) (default_query_version env query_version) =
          None"
    and "translate_query env (default_query query) (default_query_version env query_version) =
          Inr search"
    and "determine_resources_to_search env ctx resource_ids resource_ids_and_versions =
          (allowed, skipped)"
    and "allowed \<noteq> []"
    and "length (find_searched_resources env
          (guess_fields_search env search (default_version env version) allowed
             resource_ids_and_versions) allowed) \<noteq> 1"
  then show "fst (datastore_guess_fields env ctx query query_version version resource_ids
               resource_ids_and_versions size' ignore_groups) =
          Inr (select_fields env
                 (guess_fields_all_fields env
                    (find_searched_resources env
                       (guess_fields_search env search (default_version env version) allowed
                          resource_ids_and_versions) allowed) ignore_groups)
                 (guess_fields_search env search (default_version env version) allowed
                    resource_ids_and_versions)
                 (max 0 (min size' 25)))"
    by (simp add: guess_fields_several Let_def)
qed simp_all

text \<open>Size 5000: the search asks for 1001 hits, and select_fields gets 25.\<close>

theorem size_clamped_witness:
  "Executed (multisearch_search example_environment translated None [''r1'', ''r2''] None 1000
      None False)
     \<in> set (snd (datastore_multisearch example_environment () None None None None None 5000
                   None False False))
   \<and> search_size (multisearch_search example_environment translated None [''r1'', ''r2''] None
        1000 None False) = Some (1000 + 1)
   \<and> fst (datastore_guess_fields example_environment () None None None None None 5000 None) =
       Inr (''*'', 0, 25)"
proof -
  have executed: "Executed (multisearch_search example_environment translated None
      [''r1'', ''r2''] None 1000 None False)
     \<in> set (snd (datastore_multisearch example_environment () None None None None None 5000
                   None False False))"
    by (simp add: example_multisearch_large)
  have run: "datastore_multisearch example_environment () None None None None None 5000 None
      False False =
      (fst (datastore_multisearch example_environment () None None None None None 5000 None
         False False),
       snd (datastore_multisearch example_environment () None None None None None 5000 None
         False False))"
    by simp
  note clamped = size_clamped [where env = example_environment and ctx = "()" and query = None
      and query_version = None and version = None and resource_ids = None
      and resource_ids_and_versions = None and size' = 5000 and after = None
      and top_resources = False and timings = False and ignore_groups = None]
  from clamped run executed
  have "search_size (multisearch_search example_environment translated None [''r1'', ''r2'']
      None 1000 None False) = Some (max 0 (min 5000 1000) + 1)"
    by blast
  moreover from clamped
  have "fst (datastore_guess_fields example_environment () None None None None None 5000 None) =
      Inr (select_fields example_environment
             (guess_fields_all_fields example_environment
                (find_searched_resources example_environment
                   (guess_fields_search example_environment translated
                      (default_version example_environment None) [''r1'', ''r2''] None)
                   [''r1'', ''r2'']) None)
             (guess_fields_search example_environment translated
                (default_version example_environment None) [''r1'', ''r2''] None)
             (max 0 (min 5000 25)))"
    by (simp add: example_valid example_resources example_guess_helpers)
  ultimately show ?thesis using executed by (simp add: example_guess_helpers)
qed

text \<open>
  Claim C8. When the resources resolve to an empty list, both actions raise the
  ValidationError with the message about inaccessible resources, and have run no
  search and handed their search to no helper by then; the error is not a failure of
  the backend.
\<close>

theorem no_accessible_resources:
  assumes valid:
      "validate_query env (default_query query) (default_query_version env query_version) = None"
    and translated:
      "translate_query env (default_query query) (default_query_version env query_version) =
         Inr search"
    and resources:
      "determine_resources_to_search env ctx resource_ids resource_ids_and_versions =
         ([], skipped)"
  shows "datastore_multisearch env ctx query query_version version resource_ids
           resource_ids_and_versions size' after top_resources timings =
           (Inl (ValidationError no_resources_message), [])
    \<and> datastore_guess_fields env ctx query query_version version resource_ids
           resource_ids_and_versions size' ignore_groups =
           (Inl (ValidationError no_resources_message), [])
    \<and> (\<forall>failure. ValidationError no_resources_message \<noteq> BackendFailure failure)"
  using multisearch_no_resources [OF valid translated resources]
    guess_fields_no_resources [OF valid translated resources]
  by simp

theorem no_accessible_resources_witness:
  "validate_query example_environment (default_query None)
     (default_query_version example_environment None) = None
   \<and> translate_query example_environment (default_query None)
       (default_query_version example_environment None) = Inr translated
   \<and> determine_resources_to_search example_environment () (Some []) None = ([], [])
   \<and> datastore_multisearch example_environment () None None None (Some []) None 100 None False
       False = (Inl (ValidationError no_resources_message), [])
   \<and> datastore_guess_fields example_environment () None None None (Some []) None 10 None =
       (Inl (ValidationError no_resources_message), [])"
proof -
  from no_accessible_resources [OF example_valid(1) example_valid(2) example_resources(3),
      of None None None None 100 None False False None]
    no_accessible_resources [OF example_valid(1) example_valid(2) example_resources(3),
      of None None None None 10 None False False None]
  show ?thesis by (simp add: example_valid example_resources)
qed

text \<open>
  Claim C9. datastore_resolve_slug raises the ValidationError \<open>Slug not found\<close> when
  the slug does not resolve (its only error, and not the message of the resource check),
  and otherwise returns the stored query, query_version, version, resource_ids and
  resource_ids_and_versions with the creation time in ISO format.
\<close>

theorem resolve_slug_result:
  "(resolve_slug store slug_string = None \<longrightarrow>
      datastore_resolve_slug store slug_string = Inl (ValidationError ''Slug not found''))
   \<and> (\<forall>found_slug. resolve_slug store slug_string = Some found_slug \<longrightarrow>
        datastore_resolve_slug store slug_string =
          Inr \<lparr>rs_query = slug_query found_slug,
               rs_query_version = slug_query_version found_slug,
               rs_version = slug_version found_slug,
               rs_resource_ids = slug_resource_ids found_slug,
               rs_resource_ids_and_versions = slug_resource_ids_and_versions found_slug,
               rs_created = isoformat store (slug_created found_slug)\<rparr>)
   \<and> (\<forall>e. datastore_resolve_slug store slug_string = Inl e \<longrightarrow>
        e = ValidationError ''Slug not found'' \<and> resolve_slug store slug_string = None)
   \<and> ''Slug not found'' \<noteq> no_resources_message"
proof -
  have "(resolve_slug store slug_string = None \<longrightarrow>
      datastore_resolve_slug store slug_string = Inl (ValidationError ''Slug not found''))
   \<and> (\<forall>found_slug. resolve_slug store slug_string = Some found_slug \<longrightarrow>
        datastore_resolve_slug store slug_string =
          Inr \<lparr>rs_query = slug_query found_slug,
               rs_query_version = slug_query_version found_slug,
               rs_version = slug_version found_slug,
               rs_resource_ids = slug_resource_ids found_slug,
               rs_resource_ids_and_versions = slug_resource_ids_and_versions found_slug,
               rs_created = isoformat store (slug_created found_slug)\<rparr>)
   \<and> (\<forall>e. datastore_resolve_slug store slug_string = Inl e \<longrightarrow>
        e = ValidationError ''Slug not found'' \<and> resolve_slug store slug_string = None)"
    by (cases "resolve_slug store slug_string") (simp_all add: datastore_resolve_slug_def)
  moreover have "''Slug not found'' \<noteq> no_resources_message"
    by (simp add: no_resources_message_def)
  ultimately show ?thesis by blast
qed

theorem resolve_slug_result_witness:
  "resolve_slug example_store ''lazy-dog'' = None
   \<and> datastore_resolve_slug example_store ''lazy-dog'' = Inl (ValidationError ''Slug not found'')
   \<and> resolve_slug example_store ''quick-brown-fox'' = Some example_slug
   \<and> datastore_resolve_slug example_store ''quick-brown-fox'' =
       Inr \<lparr>rs_query = JDict [], rs_query_version = ''v1.0.0'', rs_version = Some 7,
            rs_resource_ids = Some [''r1''], rs_resource_ids_and_versions = None,
            rs_created = ''1970-01-01T00:16:40''\<rparr>"
proof -
  have missing: "resolve_slug example_store ''lazy-dog'' = None"
    and stored: "resolve_slug example_store ''quick-brown-fox'' = Some example_slug"
    by (simp_all add: example_store_def)
  from resolve_slug_result [of example_store "''lazy-dog''"] missing
  have not_found: "datastore_resolve_slug example_store ''lazy-dog'' =
      Inl (ValidationError ''Slug not found'')" by blast
  from resolve_slug_result [of example_store "''quick-brown-fox''"] stored
  have "datastore_resolve_slug example_store ''quick-brown-fox'' =
      Inr \<lparr>rs_query = slug_query example_slug,
           rs_query_version = slug_query_version example_slug,
           rs_version = slug_version example_slug,
           rs_resource_ids = slug_resource_ids example_slug,
           rs_resource_ids_and_versions = slug_resource_ids_and_versions example_slug,
           rs_created = isoformat example_store (slug_created example_slug)\<rparr>" by blast
  then have "datastore_resolve_slug example_store ''quick-brown-fox'' =
       Inr \<lparr>rs_query = JDict [], rs_query_version = ''v1.0.0'', rs_version = Some 7,
            rs_resource_ids = Some [''r1''], rs_resource_ids_and_versions = None,
            rs_created = ''1970-01-01T00:16:40''\<rparr>"
    by (simp add: example_slug_def example_store_def)
  with missing stored not_found show ?thesis by simp
qed


end
